theory Spec2Isabelle
  imports Main
begin

section \<open>Python values, exceptions and string helpers\<close>

text \<open>
  The values a test method can return, as far as the \<^verbatim>\<open>test\<close> decorator of
  \<^verbatim>\<open>common/test_utils.py\<close> tells them apart. \<open>PBool\<close> is kept apart from \<open>PInt\<close>
  because Python's \<^verbatim>\<open>bool\<close> is a subclass of \<^verbatim>\<open>int\<close>: \<^verbatim>\<open>isinstance(True, int)\<close> holds.
\<close>

datatype pyval =
    PNone
  | PBool bool
  | PInt int
  | PStr string
  | PList "pyval list"
  | PTuple "pyval list"
  | PDict "(pyval \<times> pyval) list"

text \<open>Exceptions raised by the modelled code; a computation is a value of \<open>exn + 'a\<close>.\<close>

datatype exn =
    InvalidTestMethod string
  | ValueError string
  | TypeError
  | KeyError
  | IndexError
  | UnboundLocalError
  | OSError
  | ReadError
  | OverflowError
  | IntegrityError
  | InterfaceError

definition is_digit :: "char \<Rightarrow> bool" where
  "is_digit c = (48 \<le> (of_char c :: nat) \<and> (of_char c :: nat) \<le> 57)"

definition digit_val :: "char \<Rightarrow> nat" where
  "digit_val c = of_char c - 48"

text \<open>
  A string is a list of code points below 256. \<^verbatim>\<open>str.isspace\<close> there: space, tab,
  newline, vertical tab, form feed, carriage return, the four separators 0x1c to 0x1f,
  next line (0x85) and no-break space (0xa0).
\<close>

definition is_space :: "char \<Rightarrow> bool" where
  "is_space c = (of_char c \<in> {9, 10, 11, 12, 13, 28, 29, 30, 31, 32, 133, 160 :: nat})"

text \<open>\<^verbatim>\<open>s.startswith(p)\<close>\<close>

definition startswith :: "string \<Rightarrow> string \<Rightarrow> bool" where
  "startswith s p = (take (length p) s = p)"

text \<open>\<^verbatim>\<open>s.split()\<close>: the maximal runs of non-whitespace characters, in order.\<close>

fun split_ws :: "string \<Rightarrow> string \<Rightarrow> string list" where
  "split_ws cur [] = (if cur = [] then [] else [cur])"
| "split_ws cur (c # cs) =
     (if is_space c then (if cur = [] then split_ws [] cs else cur # split_ws [] cs)
      else split_ws (cur @ [c]) cs)"

definition py_split :: "string \<Rightarrow> string list" where
  "py_split s = split_ws [] s"

text \<open>
  The whitespace that \<^verbatim>\<open>int(str)\<close> skips at both ends of its argument: the six
  characters of C's \<^verbatim>\<open>isspace\<close> (tab, newline, vertical tab, form feed, carriage
  return, space), and next line and no-break space, which \<^verbatim>\<open>int\<close> turns into a
  space before it parses. The separators 0x1c to 0x1f are not among them:
  \<^verbatim>\<open>int\<close> raises \<^verbatim>\<open>ValueError\<close> on them.
\<close>

definition int_space :: "char \<Rightarrow> bool" where
  "int_space c = (of_char c \<in> {9, 10, 11, 12, 13, 32, 133, 160 :: nat})"

definition int_strip :: "string \<Rightarrow> string" where
  "int_strip s = rev (dropWhile int_space (rev (dropWhile int_space s)))"

text \<open>
  The digits of a decimal literal accepted by \<^verbatim>\<open>int(str)\<close>: a digit, then digits each
  optionally preceded by one underscore.
\<close>

fun parse_digits :: "nat \<Rightarrow> string \<Rightarrow> nat option" where
  "parse_digits acc [] = Some acc"
| "parse_digits acc [c] = (if is_digit c then Some (10 * acc + digit_val c) else None)"
| "parse_digits acc (c # d # ds) =
     (if is_digit c then parse_digits (10 * acc + digit_val c) (d # ds)
      else if c = CHR ''_'' \<and> is_digit d then parse_digits (10 * acc + digit_val d) ds
      else None)"

definition parse_decimal :: "string \<Rightarrow> nat option" where
  "parse_decimal s =
     (case s of [] \<Rightarrow> None
      | c # cs \<Rightarrow> if is_digit c then parse_digits (digit_val c) cs else None)"

text \<open>
  \<^verbatim>\<open>int(s)\<close> for a string in base 10: the whitespace at both ends is skipped, one sign
  is allowed; \<open>None\<close> stands for the \<^verbatim>\<open>ValueError\<close>. (The limit on the number of
  digits that CPython has from version 3.11 on, 4300 unless configured otherwise, is not
  part of the function: the interpreters before it have none.)
\<close>

definition py_int_of_str :: "string \<Rightarrow> int option" where
  "py_int_of_str s =
     (case int_strip s of
        [] \<Rightarrow> None
      | c # cs \<Rightarrow>
          if c = CHR ''+'' then map_option int (parse_decimal cs)
          else if c = CHR ''-'' then map_option (\<lambda>n. - int n) (parse_decimal cs)
          else map_option int (parse_decimal (c # cs)))"

section \<open>The test framework library (common/test\_utils.py)\<close>

subsection \<open>The \<^verbatim>\<open>test\<close> decorator\<close>

text \<open>A report is the dictionary built by \<^verbatim>\<open>wrapper\<close>, in insertion order.\<close>

type_synonym report = "(string \<times> pyval) list"

definition isinstance_int :: "pyval \<Rightarrow> bool" where
  "isinstance_int v = (case v of PInt _ \<Rightarrow> True | PBool _ \<Rightarrow> True | _ \<Rightarrow> False)"

definition isinstance_tuple :: "pyval \<Rightarrow> bool" where
  "isinstance_tuple v = (case v of PTuple _ \<Rightarrow> True | _ \<Rightarrow> False)"

definition isinstance_dict :: "pyval \<Rightarrow> bool" where
  "isinstance_dict v = (case v of PDict _ \<Rightarrow> True | _ \<Rightarrow> False)"

definition tuple_items :: "pyval \<Rightarrow> pyval list" where
  "tuple_items v = (case v of PTuple xs \<Rightarrow> xs | _ \<Rightarrow> [])"

text \<open>
  \<^verbatim>\<open>wrapper(self)\<close> of a method decorated with \<^verbatim>\<open>test(name, description)\<close>. The third
  argument is what \<^verbatim>\<open>method(self)\<close> does: it returns a value or raises, and an exception
  of the raw method leaves the wrapper as it is.
\<close>

definition wrapper :: "string \<Rightarrow> string \<Rightarrow> exn + pyval \<Rightarrow> exn + report" where
  "wrapper name description method =
     (case method of
        Inl e \<Rightarrow> Inl e
      | Inr result \<Rightarrow>
          if isinstance_int result then
            Inr ([(''result_code'', result)]
                 @ [(''test_name'', PStr name), (''test_description'', PStr description)])
          else if \<not> isinstance_tuple result then
            Inl (InvalidTestMethod ''Invalid return type.'')
          else if length (tuple_items result) \<noteq> 2 then
            Inl (InvalidTestMethod ''Incorrect number of return values.'')
          else if \<not> isinstance_int (tuple_items result ! 0) then
            Inl (InvalidTestMethod ''Result code is not an integer.'')
          else if \<not> isinstance_dict (tuple_items result ! 1) then
            Inl (InvalidTestMethod ''Second return value is not a dictionary.'')
          else
            Inr ([(''result_code'', tuple_items result ! 0),
                  (''additional_info'', tuple_items result ! 1)]
                 @ [(''test_name'', PStr name), (''test_description'', PStr description)]))"

subsection \<open>Test sets and \<^verbatim>\<open>TestSet.run\<close>\<close>

text \<open>
  An attribute of a test-set instance. A method decorated with \<^verbatim>\<open>test\<close> carries the
  marker \<^verbatim>\<open>wrapper.test = True\<close>, its name and description, and the behaviour of the
  raw method; other methods and data attributes carry no marker.
\<close>

datatype attr =
    TestMethod string string "exn + pyval"
  | PlainMethod
  | DataAttr pyval


text \<open>Calling a bound attribute found by \<^verbatim>\<open>is_test_method\<close>.\<close>

definition call_method :: "attr \<Rightarrow> exn + report" where
  "call_method x =
     (case x of TestMethod name description method \<Rightarrow> wrapper name description method
      | _ \<Rightarrow> Inl TypeError)"



definition exn_str :: "exn \<Rightarrow> string" where
  "exn_str e = (case e of InvalidTestMethod m \<Rightarrow> m | ValueError m \<Rightarrow> m | _ \<Rightarrow> [])"



text \<open>
  The return contract in the words of the specification: a bare integer result code, or a
  pair of an integer result code and a dictionary.
\<close>

definition conforming :: "pyval \<Rightarrow> bool" where
  "conforming v =
     (case v of
        PInt n \<Rightarrow> True
      | PBool b \<Rightarrow> True
      | PTuple [c, PDict d] \<Rightarrow> isinstance_int c
      | _ \<Rightarrow> False)"

text \<open>The report record the specification gives a conforming return value.\<close>

definition report_of :: "string \<Rightarrow> string \<Rightarrow> pyval \<Rightarrow> report" where
  "report_of name description v =
     (case v of
        PTuple [c, d] \<Rightarrow>
          [(''result_code'', c), (''additional_info'', d),
           (''test_name'', PStr name), (''test_description'', PStr description)]
      | _ \<Rightarrow>
          [(''result_code'', v),
           (''test_name'', PStr name), (''test_description'', PStr description)])"



section \<open>The reference plugin (test\_sets\_dev/linux/linux.py)\<close>

text \<open>
  The loop over the lines of the file: \<open>line\<close> is the loop variable, unbound before the
  first line is read; the loop stops at the first line that starts with \<^verbatim>\<open>TracerPid\<close>
  and otherwise ends with the last line bound.
\<close>

fun tracer_line :: "string option \<Rightarrow> string list \<Rightarrow> string option" where
  "tracer_line line [] = line"
| "tracer_line line (l # ls) =
     (if startswith l ''TracerPid'' then Some l else tracer_line (Some l) ls)"

text \<open>
  The raw method \<^verbatim>\<open>is_tracer_attached\<close>. Its argument is what
  \<^verbatim>\<open>open("/proc/self/status", "r")\<close> gives: the lines of the file, or \<open>None\<close> when the file
  cannot be opened.
\<close>

definition is_tracer_attached_raw :: "string list option \<Rightarrow> exn + pyval" where
  "is_tracer_attached_raw f =
     (case f of
        None \<Rightarrow> Inl OSError
      | Some ls \<Rightarrow>
          (case tracer_line None ls of
             None \<Rightarrow> Inl UnboundLocalError
           | Some line \<Rightarrow>
               (case py_split line of
                  [] \<Rightarrow> Inl IndexError
                | t # ts \<Rightarrow>
                    (case py_int_of_str (last (t # ts)) of
                       None \<Rightarrow> Inl (ValueError ''invalid literal for int() with base 10'')
                     | Some pid \<Rightarrow>
                         Inr (PTuple [PInt (if pid = 0 then 1 else - 1),
                                      PDict [(PStr ''found_pid'', PInt pid)]])))))"

definition is_tracer_attached :: "string list option \<Rightarrow> attr" where
  "is_tracer_attached f =
     TestMethod ''Is tracer attached?'' ''Looks for a TracerPid different than 0.''
       (is_tracer_attached_raw f)"


text \<open>The line the kernel writes for a tracer pid: \<^verbatim>\<open>"TracerPid:\t%d\n"\<close>.\<close>

fun decimal :: "nat \<Rightarrow> string" where
  "decimal n = (if n < 10 then [char_of (48 + n)] else decimal (n div 10) @ [char_of (48 + n mod 10)])"

declare decimal.simps [simp del]

definition tracer_pid_line :: "nat \<Rightarrow> string" where
  "tracer_pid_line pid = ''TracerPid:'' @ [CHR 0x09] @ decimal pid @ [CHR 0x0A]"

section \<open>Package archives (common/test\_utils.py)\<close>

text \<open>
  A member of a tar archive as \<^verbatim>\<open>tarfile\<close> presents it: its name, whether
  \<^verbatim>\<open>isdir()\<close> holds, and its bytes. An opened archive is the list of its members in
  archive order.
\<close>

record tar_member =
  tm_name :: string
  tm_isdir :: bool
  tm_data :: string

datatype fs_node = Dir | File string

text \<open>The file system: what is stored at each path.\<close>

type_synonym filesystem = "string \<Rightarrow> fs_node option"

text \<open>\<^verbatim>\<open>os.path.join(root, name)\<close> on POSIX: an absolute \<open>name\<close> replaces \<open>root\<close>.\<close>

definition os_path_join :: "string \<Rightarrow> string \<Rightarrow> string" where
  "os_path_join root name =
     (if startswith name ''/'' then name
      else if root = [] \<or> last root = CHR ''/'' then root @ name
      else root @ ''/'' @ name)"

text \<open>
  \<^verbatim>\<open>tar.extractall(path)\<close> is the library's: what it writes for an archive, and whether
  it raises on the way (a member below a path that holds a file, a name the library
  refuses, a full disk), is not decided in this repository. It is a parameter of the
  functions that call it: from the archive, the path and the file system it gives the
  exception it raised, if any, and the file system it left.
\<close>

type_synonym extractor =
  "tar_member list \<Rightarrow> string \<Rightarrow> filesystem \<Rightarrow> exn option \<times> filesystem"

text \<open>
  \<^verbatim>\<open>member_is_package\<close>: \<^verbatim>\<open>tar.getmember\<close> finds a member by its exact name among all
  members of the archive and raises \<^verbatim>\<open>KeyError\<close> when there is none.
\<close>

definition member_is_package :: "tar_member list \<Rightarrow> tar_member \<Rightarrow> bool" where
  "member_is_package tar member = (tm_name member @ ''/__init__.py'' \<in> set (map tm_name tar))"

text \<open>
  The loop of \<^verbatim>\<open>uncompress_test_packages\<close> over the members still to visit;
  \<open>new_packages\<close> is the list built so far. (The message of the \<^verbatim>\<open>ValueError\<close> names the
  member by its name, where the source prints the member object.)
\<close>

fun check_members :: "tar_member list \<Rightarrow> tar_member list \<Rightarrow> string list \<Rightarrow> exn + string list" where
  "check_members tar [] new_packages = Inr new_packages"
| "check_members tar (member # ms) new_packages =
     (if count_list (tm_name member) CHR ''/'' = 0 then
        (if \<not> (tm_isdir member \<and> member_is_package tar member) then
           Inl (ValueError (''Found top level member '' @ tm_name member @ '' is not a package.''))
         else check_members tar ms (new_packages @ [tm_name member]))
      else check_members tar ms new_packages)"

text \<open>
  \<^verbatim>\<open>uncompress_test_packages(file_object, tests_root)\<close>. The file object is \<open>None\<close> when
  \<^verbatim>\<open>tarfile.open\<close> cannot read it as a gzip tar (\<^verbatim>\<open>ReadError\<close>). The result is the
  returned list or the exception, and the file system afterwards: an exception of
  \<^verbatim>\<open>tar.extractall\<close> is not caught here and leaves what was written before it.
\<close>

definition uncompress_test_packages ::
    "extractor \<Rightarrow> tar_member list option \<Rightarrow> string \<Rightarrow> filesystem
      \<Rightarrow> (exn + string list) \<times> filesystem" where
  "uncompress_test_packages extractall file_object tests_root fs =
     (case file_object of
        None \<Rightarrow> (Inl ReadError, fs)
      | Some tar \<Rightarrow>
          (case check_members tar tar [] of
             Inl e \<Rightarrow> (Inl e, fs)
           | Inr new_packages \<Rightarrow>
               (case extractall tar tests_root fs of
                  (Some e, fs') \<Rightarrow> (Inl e, fs')
                | (None, fs') \<Rightarrow> (Inr new_packages, fs'))))"



section \<open>The C2 service (c2/c2.py)\<close>

subsection \<open>Parsed JSON and the Python operations the handlers apply to it\<close>

text \<open>
  What \<^verbatim>\<open>request.json\<close> holds: \<^verbatim>\<open>None\<close>, a \<^verbatim>\<open>bool\<close>, an \<^verbatim>\<open>int\<close>, a \<^verbatim>\<open>str\<close>, a
  \<^verbatim>\<open>list\<close> or a \<^verbatim>\<open>dict\<close> with string keys (in insertion order, keys distinct).
  JSON numbers with a fraction or an exponent, which Python reads as \<^verbatim>\<open>float\<close>, are not
  part of this model.
\<close>

datatype json =
    JNull
  | JBool bool
  | JInt int
  | JStr string
  | JArr "json list"
  | JObj "(string \<times> json) list"

text \<open>\<^verbatim>\<open>sub in s\<close> for two strings.\<close>

fun is_substring :: "string \<Rightarrow> string \<Rightarrow> bool" where
  "is_substring sub [] = (sub = [])"
| "is_substring sub (c # cs) = (startswith (c # cs) sub \<or> is_substring sub cs)"

text \<open>\<^verbatim>\<open>key in obj\<close> for a string \<open>key\<close>.\<close>

definition py_in :: "string \<Rightarrow> json \<Rightarrow> exn + bool" where
  "py_in key obj =
     (case obj of
        JObj kv \<Rightarrow> Inr (key \<in> set (map fst kv))
      | JArr xs \<Rightarrow> Inr (JStr key \<in> set xs)
      | JStr s \<Rightarrow> Inr (is_substring key s)
      | _ \<Rightarrow> Inl TypeError)"

text \<open>A subscript: \<^verbatim>\<open>obj['key']\<close> or \<^verbatim>\<open>obj[i]\<close> with \<open>i\<close> not negative.\<close>

datatype sel = Key string | Idx nat

definition py_getitem :: "json \<Rightarrow> sel \<Rightarrow> exn + json" where
  "py_getitem obj s =
     (case s of
        Key k \<Rightarrow>
          (case obj of
             JObj kv \<Rightarrow> (case map_of kv k of None \<Rightarrow> Inl KeyError | Some v \<Rightarrow> Inr v)
           | _ \<Rightarrow> Inl TypeError)
      | Idx i \<Rightarrow>
          (case obj of
             JArr xs \<Rightarrow> if i < length xs then Inr (xs ! i) else Inl IndexError
           | JStr cs \<Rightarrow> if i < length cs then Inr (JStr [cs ! i]) else Inl IndexError
           | JObj kv \<Rightarrow> Inl KeyError
           | _ \<Rightarrow> Inl TypeError))"

text \<open>A chain of subscripts, left to right: \<^verbatim>\<open>obj[s1][s2]...\<close>\<close>

fun py_subscripts :: "json \<Rightarrow> sel list \<Rightarrow> exn + json" where
  "py_subscripts obj [] = Inr obj"
| "py_subscripts obj (s # ss) =
     (case py_getitem obj s of Inl e \<Rightarrow> Inl e | Inr v \<Rightarrow> py_subscripts v ss)"

text \<open>\<^verbatim>\<open>int(x)\<close>\<close>

definition py_int :: "json \<Rightarrow> exn + int" where
  "py_int x =
     (case x of
        JInt i \<Rightarrow> Inr i
      | JBool b \<Rightarrow> Inr (if b then 1 else 0)
      | JStr s \<Rightarrow>
          (case py_int_of_str s of
             None \<Rightarrow> Inl (ValueError ''invalid literal for int() with base 10'')
           | Some i \<Rightarrow> Inr i)
      | _ \<Rightarrow> Inl TypeError)"

subsection \<open>Python dictionaries keyed by parsed JSON values\<close>

text \<open>
  Two keys are the same key of a dictionary when they are equal in Python: a \<^verbatim>\<open>bool\<close>
  equals the integer 0 or 1, and a string equals only the same string.
\<close>

definition key_num :: "json \<Rightarrow> int option" where
  "key_num k = (case k of JInt i \<Rightarrow> Some i | JBool b \<Rightarrow> Some (if b then 1 else 0) | _ \<Rightarrow> None)"

definition py_eq :: "json \<Rightarrow> json \<Rightarrow> bool" where
  "py_eq a b =
     (case key_num a of
        Some i \<Rightarrow> (case key_num b of Some j \<Rightarrow> i = j | None \<Rightarrow> False)
      | None \<Rightarrow> (case key_num b of Some j \<Rightarrow> False | None \<Rightarrow> a = b))"

definition hashable :: "json \<Rightarrow> bool" where
  "hashable k = (case k of JArr _ \<Rightarrow> False | JObj _ \<Rightarrow> False | _ \<Rightarrow> True)"

text \<open>\<^verbatim>\<open>d.get(k)\<close>, \<^verbatim>\<open>d[k] = v\<close> (an existing key keeps its place) and \<^verbatim>\<open>del d[k]\<close>.\<close>

fun dict_get :: "(json \<times> 'v) list \<Rightarrow> json \<Rightarrow> 'v option" where
  "dict_get [] k = None"
| "dict_get ((k', v) # d) k = (if py_eq k' k then Some v else dict_get d k)"

fun dict_set :: "(json \<times> 'v) list \<Rightarrow> json \<Rightarrow> 'v \<Rightarrow> (json \<times> 'v) list" where
  "dict_set [] k v = [(k, v)]"
| "dict_set ((k', v') # d) k v =
     (if py_eq k' k then (k', v) # d else (k', v') # dict_set d k v)"

definition dict_del :: "(json \<times> 'v) list \<Rightarrow> json \<Rightarrow> (json \<times> 'v) list" where
  "dict_del d k = filter (\<lambda>(k', v). \<not> py_eq k' k) d"

subsection \<open>The session table of the embedded database\<close>

datatype sqlval = SqlNull | SqlInt int | SqlText string

text \<open>
  Binding a Python value to a parameter of a statement: \<^verbatim>\<open>sqlite3\<close> takes \<^verbatim>\<open>None\<close>,
  integers of 64 bits and strings, and refuses lists and dictionaries.
\<close>

definition sql_bind :: "json \<Rightarrow> exn + sqlval" where
  "sql_bind x =
     (case x of
        JNull \<Rightarrow> Inr SqlNull
      | JBool b \<Rightarrow> Inr (SqlInt (if b then 1 else 0))
      | JInt i \<Rightarrow>
          if - (2 ^ 63) \<le> i \<and> i < 2 ^ 63 then Inr (SqlInt i) else Inl OverflowError
      | JStr s \<Rightarrow> Inr (SqlText s)
      | _ \<Rightarrow> Inl InterfaceError)"

fun bind_all :: "json list \<Rightarrow> exn + sqlval list" where
  "bind_all [] = Inr []"
| "bind_all (x # xs) =
     (case sql_bind x of
        Inl e \<Rightarrow> Inl e
      | Inr v \<Rightarrow> (case bind_all xs of Inl e \<Rightarrow> Inl e | Inr vs \<Rightarrow> Inr (v # vs)))"

definition int_text :: "int \<Rightarrow> string" where
  "int_text i = (if i < 0 then CHR ''-'' # decimal (nat (- i)) else decimal (nat i))"

text \<open>
  The columns named by the \<^verbatim>\<open>INSERT\<close> of \<^verbatim>\<open>add_environment\<close>, in its order. All are
  \<^verbatim>\<open>NOT NULL\<close>; \<^verbatim>\<open>env_port\<close> is an \<^verbatim>\<open>INTEGER\<close> column and the others are \<^verbatim>\<open>TEXT\<close>
  columns, which store an integer as its decimal text.
\<close>

definition session_columns :: "string list" where
  "session_columns =
     [''env_ip'', ''env_port'', ''env_platform'', ''env_node'', ''env_os_system'',
      ''env_os_release'', ''env_os_version'', ''env_hw_machine'', ''env_hw_processor'',
      ''env_py_build_no'', ''env_py_build_date'', ''env_py_compiler'',
      ''env_py_implementation'', ''env_py_version'']"

definition column_affinity :: "string \<Rightarrow> sqlval \<Rightarrow> sqlval" where
  "column_affinity column v =
     (if column = ''env_port'' then v
      else (case v of SqlInt i \<Rightarrow> SqlText (int_text i) | _ \<Rightarrow> v))"

record session_row =
  id_session :: int
  row_session_start :: int
  row_session_end :: "int option"
  env_columns :: "(string \<times> sqlval) list"

text \<open>The largest \<^verbatim>\<open>id_session\<close> of the table, 0 for the empty table.\<close>

fun max_rowid :: "session_row list \<Rightarrow> int" where
  "max_rowid [] = 0"
| "max_rowid (r # rs) = max (id_session r) (max_rowid rs)"

text \<open>
  The \<^verbatim>\<open>INSERT INTO session\<close> with its commit, at server time \<open>now\<close> (seconds since the
  epoch): the new row gets the next row id and the default \<^verbatim>\<open>session_start\<close>; the
  result is the table and \<^verbatim>\<open>cursor.lastrowid\<close>. (Row ids stay below the 64-bit limit,
  at which SQLite would pick an unused one at random.)
\<close>

definition insert_session :: "int \<Rightarrow> json list \<Rightarrow> session_row list
    \<Rightarrow> exn + (session_row list \<times> int)" where
  "insert_session now to_insert tbl =
     (case bind_all to_insert of
        Inl e \<Rightarrow> Inl e
      | Inr vals \<Rightarrow>
          if SqlNull \<in> set vals then Inl IntegrityError
          else
            let lastrowid = max_rowid tbl + 1;
                row = \<lparr>id_session = lastrowid, row_session_start = now,
                       row_session_end = None,
                       env_columns = map (\<lambda>(c, v). (c, column_affinity c v)) (zip session_columns vals)\<rparr>
            in Inr (tbl @ [row], lastrowid))"

text \<open>
  SQLite's \<^verbatim>\<open>strftime('%Y-%m-%dT%H:%M:%SZ', t, 'unixepoch')\<close>: the civil date of the day
  number in the proleptic Gregorian calendar and the time of day, each field zero-padded.
  SQLite's dates run from noon of 24 November of the year -4713 (Julian day 0) to the
  end of the year 9999, and the result is \<^verbatim>\<open>NULL\<close> outside; the year is printed as C's
  \<^verbatim>\<open>%04d\<close> prints it, so that a year before 0000 has its sign and at least three digits.
\<close>

definition digit_char :: "nat \<Rightarrow> char" where
  "digit_char n = char_of (48 + n mod 10)"

definition pad2 :: "nat \<Rightarrow> string" where
  "pad2 n = [digit_char (n div 10), digit_char n]"

definition pad4 :: "nat \<Rightarrow> string" where
  "pad4 n = [digit_char (n div 1000), digit_char (n div 100), digit_char (n div 10), digit_char n]"

definition pad3 :: "nat \<Rightarrow> string" where
  "pad3 n = [digit_char (n div 100), digit_char (n div 10), digit_char n]"

definition year_text :: "int \<Rightarrow> string" where
  "year_text y =
     (if 0 \<le> y then pad4 (nat y)
      else if - 1000 < y then CHR ''-'' # pad3 (nat (- y))
      else CHR ''-'' # pad4 (nat (- y)))"

definition civil_from_days :: "int \<Rightarrow> int \<times> int \<times> int" where
  "civil_from_days days =
     (let z = days + 719468;
          era = z div 146097;
          doe = z mod 146097;
          yoe = (doe - doe div 1460 + doe div 36524 - doe div 146096) div 365;
          doy = doe - (365 * yoe + yoe div 4 - yoe div 100);
          mp = (5 * doy + 2) div 153;
          d = doy - (153 * mp + 2) div 5 + 1;
          m = (if mp < 10 then mp + 3 else mp - 9);
          y = yoe + era * 400 + (if m \<le> 2 then 1 else 0)
      in (y, m, d))"

definition strftime_iso :: "int \<Rightarrow> string option" where
  "strftime_iso t =
     (if - 210866760000 \<le> t \<and> t \<le> 253402300799 then
        (case civil_from_days (t div 86400) of
           (y, m, d) \<Rightarrow>
             Some (year_text y @ ''-'' @ pad2 (nat m) @ ''-'' @ pad2 (nat d) @ ''T''
                   @ pad2 (nat (t mod 86400 div 3600)) @ '':''
                   @ pad2 (nat (t mod 3600 div 60)) @ '':''
                   @ pad2 (nat (t mod 60)) @ ''Z''))
      else None)"

text \<open>
  The \<^verbatim>\<open>SELECT strftime(...) FROM session WHERE id_session = ?\<close> with
  \<^verbatim>\<open>fetchone()[0]\<close>: subscripting fails when no row is found.
\<close>

definition select_session_start :: "session_row list \<Rightarrow> int \<Rightarrow> exn + json" where
  "select_session_start tbl rowid =
     (case find (\<lambda>r. id_session r = rowid) tbl of
        None \<Rightarrow> Inl TypeError
      | Some r \<Rightarrow>
          (case strftime_iso (row_session_start r) of
             None \<Rightarrow> Inr JNull
           | Some s \<Rightarrow> Inr (JStr s)))"


subsection \<open>Requests, responses and the state of the service\<close>

text \<open>
  The registry \<^verbatim>\<open>environments\<close>: a dictionary from ip to a dictionary from port to
  \<^verbatim>\<open>{'session_id': ..., 'session_start': ...}\<close>. The keys are the values of the request
  body as they are.
\<close>

record env_entry =
  session_id :: int
  session_start :: json

type_synonym registry = "(json \<times> (json \<times> env_entry) list) list"

text \<open>
  The body of a response: none, the \<^verbatim>\<open>jsonify(error=str(e))\<close> of an HTTP error with its
  code and description, \<^verbatim>\<open>jsonify(success=True)\<close>, \<^verbatim>\<open>jsonify(environments)\<close>, or the
  \<^verbatim>\<open>jsonify\<close> of another JSON value.
\<close>

datatype payload =
    NoBody
  | ErrorBody nat string
  | SuccessBody
  | RegistryBody registry
  | JsonBody json

record response =
  status_code :: nat
  resp_body :: payload
  www_authenticate :: "string option"

text \<open>
  \<^verbatim>\<open>abort(code, description)\<close> as the error handlers of the application render it (one is
  registered for every code the handlers abort with); the handler of 401 adds the
  challenge header.
\<close>

definition abort :: "nat \<Rightarrow> string \<Rightarrow> response" where
  "abort code description =
     \<lparr>status_code = code, resp_body = ErrorBody code description,
      www_authenticate =
        (if code = 401
         then Some (''SECCHIWARE-HMAC-256 realm='' @ [CHR 0x22] @ ''Access to C2'' @ [CHR 0x22])
         else None)\<rparr>"

text \<open>
  An exception that no handler catches: Flask answers with its 500 error, rendered by the
  handler of 500. (The description is the one of Flask's \<^verbatim>\<open>InternalServerError\<close>.)
\<close>

definition internal_server_error :: response where
  "internal_server_error =
     abort 500 (''The server encountered an internal error and was unable to complete ''
       @ ''your request. Either the server is overloaded or there is an error in the ''
       @ ''application.'')"

text \<open>\<^verbatim>\<open>Response(status=204, mimetype="application/json")\<close>\<close>

definition no_content :: response where
  "no_content = \<lparr>status_code = 204, resp_body = NoBody, www_authenticate = None\<rparr>"

definition ok_json :: "payload \<Rightarrow> response" where
  "ok_json b = \<lparr>status_code = 200, resp_body = b, www_authenticate = None\<rparr>"

text \<open>
  The request as the handlers read it. \<open>req_json\<close> is what parsing the body as JSON gives,
  \<open>None\<close> when the body is not valid JSON; a file part of a multipart body is an opened
  archive, or \<open>None\<close> when it cannot be read as a gzip tar. Header names are looked up as
  the handlers write them.
\<close>

record request =
  req_method :: string
  req_path :: string
  req_query_string :: string
  req_args :: "(string \<times> string) list"
  req_headers :: "(string \<times> string) list"
  req_mimetype :: string
  req_data :: string
  req_json :: "json option"
  req_files :: "(string \<times> tar_member list option) list"

record c2_state =
  environments :: registry
  session :: "session_row list"
  disk :: filesystem
  available :: "json list"

text \<open>What a call to a node through \<^verbatim>\<open>requests\<close> gives.\<close>

datatype net_reply =
    ConnectionError
  | RequestFailure
  | Reply nat "json option"

text \<open>
  What the service takes from its configuration and from code that is not part of the
  modelled files: the two secrets and the test-set root; the base64 SHA-256 digest; the
  functions of the \<^verbatim>\<open>signatures\<close> module; the calls of \<^verbatim>\<open>requests\<close>; the compressing,
  signing and sending of \<^verbatim>\<open>install_packages\<close>; the catalogue operations
  (\<^verbatim>\<open>clean_package\<close>, \<^verbatim>\<open>get_installed_package\<close>, which imports the uploaded code, and the
  \<^verbatim>\<open>batch_insert\<close> and \<^verbatim>\<open>delete\<close> of the \<^verbatim>\<open>custom_collections\<close> module); and the
  \<^verbatim>\<open>extractall\<close> of \<^verbatim>\<open>tarfile\<close>.
\<close>

record deps =
  NODE_SECRET :: string
  CLIENT_SECRET :: string
  TESTS_PATH :: string
  b64_sha256 :: "string \<Rightarrow> string"
  verify_authorization_header ::
    "string \<Rightarrow> (string \<Rightarrow> string option) \<Rightarrow> (string \<Rightarrow> string option)
      \<Rightarrow> string \<Rightarrow> string \<Rightarrow> string \<Rightarrow> string list \<Rightarrow> exn + bool"
  new_signature :: "string \<Rightarrow> string \<Rightarrow> string \<Rightarrow> string"
  new_authorization_header :: "string \<Rightarrow> string \<Rightarrow> string"
  rq_get :: "string \<Rightarrow> net_reply"
  rq_delete :: "string \<Rightarrow> string \<Rightarrow> net_reply"
  send_packages :: "json \<Rightarrow> string \<Rightarrow> filesystem \<Rightarrow> exn + net_reply"
  refresh_available :: "filesystem \<Rightarrow> string list \<Rightarrow> json list \<Rightarrow> exn + json list"
  delete_available :: "string \<Rightarrow> json list \<Rightarrow> exn + json list"
  tar_extractall :: extractor

definition client_key_recoverer :: "deps \<Rightarrow> string \<Rightarrow> string option" where
  "client_key_recoverer d key_id = (if key_id = ''Client'' then Some (CLIENT_SECRET d) else None)"

definition node_key_recoverer :: "deps \<Rightarrow> string \<Rightarrow> string option" where
  "node_key_recoverer d key_id = (if key_id = ''Node'' then Some (NODE_SECRET d) else None)"

subsection \<open>The request gates\<close>

text \<open>
  A gate gives \<open>None\<close> when the handler goes on and \<open>Some r\<close> when it aborts the request
  with the response \<open>r\<close>.
\<close>

definition check_registered :: "registry \<Rightarrow> string \<Rightarrow> string \<Rightarrow> response option" where
  "check_registered envs ip port =
     (if \<not> (case dict_get envs (JStr ip) of
               None \<Rightarrow> False
             | Some ports \<Rightarrow> dict_get ports (JStr port) \<noteq> None)
      then Some (abort 404 (''No environment registered for '' @ ip @ '':'' @ port))
      else None)"

definition endswith :: "string \<Rightarrow> string \<Rightarrow> bool" where
  "endswith s p = (length p \<le> length s \<and> drop (length s - length p) s = p)"

text \<open>\<^verbatim>\<open>request.is_json\<close>\<close>

definition is_json :: "request \<Rightarrow> bool" where
  "is_json request =
     (req_mimetype request = ''application/json''
      \<or> (startswith (req_mimetype request) ''application/''
          \<and> endswith (req_mimetype request) ''+json''))"

definition check_is_json :: "request \<Rightarrow> response option" where
  "check_is_json request =
     (if \<not> is_json request then Some (abort 415 ''Content Type is not application/json'')
      else None)"

text \<open>\<^verbatim>\<open>h.split("=", 1)[1]\<close>: what follows the first \<^verbatim>\<open>=\<close>; there is no such item without one.\<close>

definition after_first_eq :: "string \<Rightarrow> string option" where
  "after_first_eq h =
     (case dropWhile (\<lambda>c. c \<noteq> CHR ''='') h of [] \<Rightarrow> None | c # rest \<Rightarrow> Some rest)"

definition check_digest_header :: "deps \<Rightarrow> request \<Rightarrow> response option" where
  "check_digest_header d request =
     (case map_of (req_headers request) ''Digest'' of
        None \<Rightarrow> Some (abort 400 (CHR 0x27 # ''Digest' header mandatory.''))
      | Some h \<Rightarrow>
          if \<not> startswith h ''sha-256='' then
            Some (abort 400 ''Digest algorithm should be sha-256.'')
          else
            (case after_first_eq h of
               None \<Rightarrow> Some internal_server_error
             | Some given \<Rightarrow>
                 if b64_sha256 d (req_data request) \<noteq> given then
                   Some (abort 400 ''Given digest does not match content.'')
                 else None))"

definition check_authorization_header ::
    "deps \<Rightarrow> (string \<Rightarrow> string option) \<Rightarrow> string list \<Rightarrow> request \<Rightarrow> response option" where
  "check_authorization_header d key_recoverer mandatory_headers request =
     (case map_of (req_headers request) ''Authorization'' of
        None \<Rightarrow> Some (abort 401 (''No 'Authorization' header found in request.''))
      | Some h \<Rightarrow>
          (case verify_authorization_header d h key_recoverer
                  (\<lambda>h. map_of (req_headers request) h)
                  (req_method request) (req_path request) (req_query_string request)
                  mandatory_headers of
             Inl (ValueError m) \<Rightarrow> Some (abort 401 m)
           | Inl e \<Rightarrow> Some (abort 401 (''Invalid 'Authorization' header.''))
           | Inr is_valid \<Rightarrow>
               if \<not> is_valid then Some (abort 401 ''Invalid signature.'') else None))"

text \<open>
  \<^verbatim>\<open>request.json\<close> once \<^verbatim>\<open>request.is_json\<close> holds: Flask aborts with its 400 error when
  the body does not parse.
\<close>

definition request_json :: "request \<Rightarrow> response + json" where
  "request_json request =
     (case req_json request of
        None \<Rightarrow>
          Inl (abort 400 (''The browser (or proxy) sent a request that this server could ''
                 @ ''not understand.''))
      | Some j \<Rightarrow> Inr j)"

subsection \<open>The environment registry routes\<close>

definition is_up :: response where
  "is_up = ok_json SuccessBody"

text \<open>
  \<^verbatim>\<open>jsonify(environments)\<close>. Flask serialises with sorted keys (its default
  \<^verbatim>\<open>JSON_SORT_KEYS\<close>), and the \<^verbatim>\<open>json\<close> module sorts the keys of a dictionary as
  they are: two or more keys can be sorted when all are strings or all are numbers, and
  the comparison of a string with a number raises \<^verbatim>\<open>TypeError\<close>.
\<close>

definition sortable_keys :: "(json \<times> 'v) list \<Rightarrow> bool" where
  "sortable_keys dct =
     (length dct \<le> 1
      \<or> list_all (\<lambda>(k, v). case k of JStr s \<Rightarrow> True | _ \<Rightarrow> False) dct
      \<or> list_all (\<lambda>(k, v). key_num k \<noteq> None) dct)"

definition jsonify_environments :: "registry \<Rightarrow> exn + payload" where
  "jsonify_environments envs =
     (if sortable_keys envs \<and> list_all (\<lambda>(k, ports). sortable_keys ports) envs
      then Inr (RegistryBody envs) else Inl TypeError)"

definition list_environments :: "c2_state \<Rightarrow> response" where
  "list_environments st =
     (case jsonify_environments (environments st) of
        Inl e \<Rightarrow> internal_server_error
      | Inr b \<Rightarrow> ok_json b)"

text \<open>
  The test \<^verbatim>\<open>'ip' in request.json and 'port' in request.json and 'platform_info' in
  request.json\<close>, from left to right.
\<close>

definition required_keys_present :: "json \<Rightarrow> exn + bool" where
  "required_keys_present j =
     (case py_in ''ip'' j of
        Inl e \<Rightarrow> Inl e
      | Inr False \<Rightarrow> Inr False
      | Inr True \<Rightarrow>
          (case py_in ''port'' j of
             Inl e \<Rightarrow> Inl e
           | Inr False \<Rightarrow> Inr False
           | Inr True \<Rightarrow> py_in ''platform_info'' j))"

text \<open>The subscripts of \<^verbatim>\<open>platform_info\<close> that make up \<^verbatim>\<open>to_insert\<close>, in its order.\<close>

definition platform_fields :: "sel list list" where
  "platform_fields =
     [[Key ''platform''],
      [Key ''node''],
      [Key ''os'', Key ''system''],
      [Key ''os'', Key ''release''],
      [Key ''os'', Key ''version''],
      [Key ''hardware'', Key ''machine''],
      [Key ''hardware'', Key ''processor''],
      [Key ''python'', Key ''build'', Idx 0],
      [Key ''python'', Key ''build'', Idx 1],
      [Key ''python'', Key ''compiler''],
      [Key ''python'', Key ''implementation''],
      [Key ''python'', Key ''version'']]"

fun read_fields :: "json \<Rightarrow> sel list list \<Rightarrow> exn + json list" where
  "read_fields obj [] = Inr []"
| "read_fields obj (p # ps) =
     (case py_subscripts obj p of
        Inl e \<Rightarrow> Inl e
      | Inr v \<Rightarrow> (case read_fields obj ps of Inl e \<Rightarrow> Inl e | Inr vs \<Rightarrow> Inr (v # vs)))"

text \<open>
  The three reads of the body and the tuple \<^verbatim>\<open>to_insert\<close>, evaluated from left to
  right; the result is \<open>ip\<close>, \<open>port\<close> and the tuple.
\<close>

definition build_to_insert :: "json \<Rightarrow> exn + (json \<times> json \<times> json list)" where
  "build_to_insert j =
     (case py_getitem j (Key ''ip'') of Inl e \<Rightarrow> Inl e | Inr ip \<Rightarrow>
     (case py_getitem j (Key ''port'') of Inl e \<Rightarrow> Inl e | Inr port \<Rightarrow>
     (case py_getitem j (Key ''platform_info'') of Inl e \<Rightarrow> Inl e | Inr platform_info \<Rightarrow>
     (case py_int port of Inl e \<Rightarrow> Inl e | Inr p \<Rightarrow>
     (case read_fields platform_info platform_fields of Inl e \<Rightarrow> Inl e | Inr vs \<Rightarrow>
        Inr (ip, port, ip # JInt p # vs))))))"

definition add_environment :: "deps \<Rightarrow> int \<Rightarrow> request \<Rightarrow> c2_state \<Rightarrow> response \<times> c2_state" where
  "add_environment d now request st =
     (case check_digest_header d request of Some r \<Rightarrow> (r, st) | None \<Rightarrow>
     (case check_authorization_header d (node_key_recoverer d) [''Digest''] request of
        Some r \<Rightarrow> (r, st) | None \<Rightarrow>
     (case check_is_json request of Some r \<Rightarrow> (r, st) | None \<Rightarrow>
     (case request_json request of Inl r \<Rightarrow> (r, st) | Inr j \<Rightarrow>
     (case required_keys_present j of
        Inl e \<Rightarrow> (internal_server_error, st)
      | Inr False \<Rightarrow> (abort 400 ''One or more keys missing in request's body'', st)
      | Inr True \<Rightarrow>
     (case build_to_insert j of
        Inl e \<Rightarrow> (internal_server_error, st)
      | Inr (ip, port, to_insert) \<Rightarrow>
     (case insert_session now to_insert (session st) of
        Inl e \<Rightarrow> (internal_server_error, st)
      | Inr (tbl, lastrowid) \<Rightarrow>
          if \<not> hashable ip then (internal_server_error, st\<lparr>session := tbl\<rparr>)
          else
            let envs = (if dict_get (environments st) ip = None
                        then dict_set (environments st) ip []
                        else environments st)
            in
              (case select_session_start tbl lastrowid of
                 Inl e \<Rightarrow> (internal_server_error, st\<lparr>session := tbl, environments := envs\<rparr>)
               | Inr start \<Rightarrow>
                   if \<not> hashable port then
                     (internal_server_error, st\<lparr>session := tbl, environments := envs\<rparr>)
                   else
                     (no_content,
                      st\<lparr>session := tbl,
                         environments :=
                           dict_set envs ip
                             (dict_set (case dict_get envs ip of None \<Rightarrow> [] | Some ports \<Rightarrow> ports)
                                port \<lparr>session_id = lastrowid, session_start = start\<rparr>)\<rparr>)))))))))"

definition remove_environment ::
    "deps \<Rightarrow> request \<Rightarrow> string \<Rightarrow> string \<Rightarrow> c2_state \<Rightarrow> response \<times> c2_state" where
  "remove_environment d request ip port st =
     (case check_authorization_header d (node_key_recoverer d) [] request of
        Some r \<Rightarrow> (r, st) | None \<Rightarrow>
     (case check_registered (environments st) ip port of Some r \<Rightarrow> (r, st) | None \<Rightarrow>
        let ports = dict_del (case dict_get (environments st) (JStr ip) of
                                None \<Rightarrow> [] | Some ports \<Rightarrow> ports) (JStr port)
        in (no_content,
            st\<lparr>environments :=
                 (if ports = [] then dict_del (environments st) (JStr ip)
                  else dict_set (environments st) (JStr ip) ports)\<rparr>)))"

subsection \<open>The routes that call a node\<close>

definition relay :: "json option \<Rightarrow> response" where
  "relay j = (case j of None \<Rightarrow> internal_server_error | Some v \<Rightarrow> ok_json (JsonBody v))"

definition unreachable :: response where
  "unreachable = abort 504 ''The requested environment could not be reached''"

definition unexpected :: "string \<Rightarrow> string \<Rightarrow> response" where
  "unexpected ip port = abort 502 (''Unexpected response from node at '' @ ip @ '':'' @ port)"

definition get_environment_info :: "deps \<Rightarrow> string \<Rightarrow> string \<Rightarrow> c2_state \<Rightarrow> response" where
  "get_environment_info d ip port st =
     (case check_registered (environments st) ip port of Some r \<Rightarrow> r | None \<Rightarrow>
     (case rq_get d (''http://'' @ ip @ '':'' @ port @ ''/info'') of
        ConnectionError \<Rightarrow> unreachable
      | RequestFailure \<Rightarrow> internal_server_error
      | Reply code j \<Rightarrow> if code = 200 then relay j else unexpected ip port))"

definition list_installed_test_sets :: "deps \<Rightarrow> string \<Rightarrow> string \<Rightarrow> c2_state \<Rightarrow> response" where
  "list_installed_test_sets d ip port st =
     (case check_registered (environments st) ip port of Some r \<Rightarrow> r | None \<Rightarrow>
     (case rq_get d (''http://'' @ ip @ '':'' @ port @ ''/test_sets'') of
        ConnectionError \<Rightarrow> unreachable
      | RequestFailure \<Rightarrow> internal_server_error
      | Reply code j \<Rightarrow> if code = 200 then relay j else unexpected ip port))"

text \<open>
  \<^verbatim>\<open>install_packages\<close>: the compressing of the named packages, the signing and the sending
  are one call of \<open>send_packages\<close>, which raises what they raise.
\<close>

definition install_packages ::
    "deps \<Rightarrow> request \<Rightarrow> string \<Rightarrow> string \<Rightarrow> c2_state \<Rightarrow> response" where
  "install_packages d request ip port st =
     (case check_digest_header d request of Some r \<Rightarrow> r | None \<Rightarrow>
     (case check_authorization_header d (client_key_recoverer d) [''Digest''] request of
        Some r \<Rightarrow> r | None \<Rightarrow>
     (case check_registered (environments st) ip port of Some r \<Rightarrow> r | None \<Rightarrow>
     (case check_is_json request of Some r \<Rightarrow> r | None \<Rightarrow>
     (case request_json request of Inl r \<Rightarrow> r | Inr packages \<Rightarrow>
     (case send_packages d packages (''http://'' @ ip @ '':'' @ port @ ''/test_sets'') (disk st) of
        Inl (ValueError m) \<Rightarrow> abort 400 m
      | Inl e \<Rightarrow> internal_server_error
      | Inr ConnectionError \<Rightarrow> unreachable
      | Inr RequestFailure \<Rightarrow> internal_server_error
      | Inr (Reply code j) \<Rightarrow>
          if code = 204 then no_content
          else if code \<in> {400, 401, 415} then
            abort 500 ''Something went wrong when handling the request''
          else unexpected ip port))))))"

definition delete_installed_package ::
    "deps \<Rightarrow> request \<Rightarrow> string \<Rightarrow> string \<Rightarrow> string \<Rightarrow> c2_state \<Rightarrow> response" where
  "delete_installed_package d request ip port package st =
     (case check_authorization_header d (client_key_recoverer d) [] request of
        Some r \<Rightarrow> r | None \<Rightarrow>
     (case check_registered (environments st) ip port of Some r \<Rightarrow> r | None \<Rightarrow>
        let signature = new_signature d (NODE_SECRET d) ''DELETE'' (''/test_sets/'' @ package);
            authorization_content = new_authorization_header d ''C2'' signature
        in
          (case rq_delete d (''http://'' @ ip @ '':'' @ port @ ''/test_sets/'' @ package)
                  authorization_content of
             ConnectionError \<Rightarrow> unreachable
           | RequestFailure \<Rightarrow> internal_server_error
           | Reply code j \<Rightarrow>
               if code = 204 then no_content
               else if code \<in> {401, 404} then
                 abort 404 ([CHR 0x27] @ package @ [CHR 0x27] @ '' not found at '' @ ip @ '':'' @ port)
               else unexpected ip port)))"

text \<open>
  \<^verbatim>\<open>execute_tests\<close>. (The description of the 400 error leaves out the printed set of
  the invalid keys.)
\<close>

definition execute_tests ::
    "deps \<Rightarrow> request \<Rightarrow> string \<Rightarrow> string \<Rightarrow> c2_state \<Rightarrow> response" where
  "execute_tests d request ip port st =
     (case check_registered (environments st) ip port of Some r \<Rightarrow> r | None \<Rightarrow>
        if req_args request \<noteq> []
           \<and> set (map fst (req_args request)) - {''packages'', ''modules'', ''test_sets''} \<noteq> {}
        then abort 400 ''Invalid keys found in query parameters''
        else
          (case rq_get d (''http://'' @ ip @ '':'' @ port @ ''/report''
                  @ (if req_args request \<noteq> [] then ''?'' @ req_query_string request else []))
           of
             ConnectionError \<Rightarrow> unreachable
           | RequestFailure \<Rightarrow> internal_server_error
           | Reply code j \<Rightarrow>
               if code = 200 then relay j
               else if code = 400 then
                 abort 500 ''Something went wrong when handling the request''
               else unexpected ip port))"

subsection \<open>The routes of the test-set repository\<close>

definition list_available_test_sets :: "c2_state \<Rightarrow> response" where
  "list_available_test_sets st = ok_json (JsonBody (JArr (available st)))"

text \<open>
  \<^verbatim>\<open>upload_test_sets\<close>. Every exception of \<^verbatim>\<open>uncompress_test_packages\<close> is caught and
  answered with 400, with the disk as the failed extraction left it; the catalogue update
  after it is one call of \<open>refresh_available\<close>.
\<close>

definition upload_test_sets :: "deps \<Rightarrow> request \<Rightarrow> c2_state \<Rightarrow> response \<times> c2_state" where
  "upload_test_sets d request st =
     (if \<not> req_mimetype request = ''multipart/form-data'' then
        (abort 415 ''Invalid request's content type'', st)
      else
     (case check_digest_header d request of Some r \<Rightarrow> (r, st) | None \<Rightarrow>
     (case (if req_files request \<noteq> [] then map_of (req_files request) ''packages'' else None) of
        None \<Rightarrow> (abort 400 (CHR 0x27 # ''packages' key not found in request's body''), st)
      | Some file_object \<Rightarrow>
     (case check_authorization_header d (client_key_recoverer d) [''Digest''] request of
        Some r \<Rightarrow> (r, st) | None \<Rightarrow>
     (case uncompress_test_packages (tar_extractall d) file_object (TESTS_PATH d) (disk st) of
        (Inl e, disk') \<Rightarrow> (abort 400 ''Invalid file content'', st\<lparr>disk := disk'\<rparr>)
      | (Inr new_packages, disk') \<Rightarrow>
          (case refresh_available d disk' (map (\<lambda>p. ''test_sets.'' @ p) new_packages)
                  (available st) of
             Inl e \<Rightarrow> (internal_server_error, st\<lparr>disk := disk'\<rparr>)
           | Inr av \<Rightarrow> (no_content, st\<lparr>disk := disk', available := av\<rparr>)))))))"

text \<open>\<^verbatim>\<open>shutil.rmtree(path)\<close>: the directory and everything below it goes.\<close>

definition rmtree :: "string \<Rightarrow> filesystem \<Rightarrow> filesystem" where
  "rmtree path files = (\<lambda>p. if p = path \<or> startswith p (path @ ''/'') then None else files p)"

definition delete_package :: "deps \<Rightarrow> request \<Rightarrow> string \<Rightarrow> c2_state \<Rightarrow> response \<times> c2_state" where
  "delete_package d request package st =
     (case check_authorization_header d (client_key_recoverer d) [] request of
        Some r \<Rightarrow> (r, st) | None \<Rightarrow>
        let package_path = os_path_join (TESTS_PATH d) package in
          if disk st package_path \<noteq> Some Dir then
            (abort 404 (''Package '' @ [CHR 0x27] @ package @ [CHR 0x27] @ '' not found''), st)
          else
            (case delete_available d package (available st) of
               Inl e \<Rightarrow> (internal_server_error, st\<lparr>disk := rmtree package_path (disk st)\<rparr>)
             | Inr av \<Rightarrow>
                 (no_content, st\<lparr>disk := rmtree package_path (disk st), available := av\<rparr>)))"

subsection \<open>All routes\<close>

datatype route =
    IsUp
  | ListEnvironments
  | AddEnvironment
  | RemoveEnvironment string string
  | GetEnvironmentInfo string string
  | ListInstalledTestSets string string
  | InstallPackages string string
  | DeleteInstalledPackage string string string
  | ExecuteTests string string
  | ListAvailableTestSets
  | UploadTestSets
  | DeletePackage string

text \<open>One request served at server time \<open>now\<close>: the response and the state afterwards.\<close>

definition serve :: "deps \<Rightarrow> int \<Rightarrow> route \<Rightarrow> request \<Rightarrow> c2_state \<Rightarrow> response \<times> c2_state" where
  "serve d now rt request st =
     (case rt of
        IsUp \<Rightarrow> (is_up, st)
      | ListEnvironments \<Rightarrow> (list_environments st, st)
      | AddEnvironment \<Rightarrow> add_environment d now request st
      | RemoveEnvironment ip port \<Rightarrow> remove_environment d request ip port st
      | GetEnvironmentInfo ip port \<Rightarrow> (get_environment_info d ip port st, st)
      | ListInstalledTestSets ip port \<Rightarrow> (list_installed_test_sets d ip port st, st)
      | InstallPackages ip port \<Rightarrow> (install_packages d request ip port st, st)
      | DeleteInstalledPackage ip port package \<Rightarrow>
          (delete_installed_package d request ip port package st, st)
      | ExecuteTests ip port \<Rightarrow> (execute_tests d request ip port st, st)
      | ListAvailableTestSets \<Rightarrow> (list_available_test_sets st, st)
      | UploadTestSets \<Rightarrow> upload_test_sets d request st
      | DeletePackage package \<Rightarrow> delete_package d request package st)"

subsection \<open>The words of the specification\<close>

text \<open>
  The \<^verbatim>\<open>Digest\<close> header the specification asks for: \<^verbatim>\<open>sha-256=\<close> followed by the base64
  SHA-256 digest of the body.
\<close>

definition digest_matches :: "deps \<Rightarrow> request \<Rightarrow> bool" where
  "digest_matches d request =
     (map_of (req_headers request) ''Digest''
        = Some (''sha-256='' @ b64_sha256 d (req_data request)))"

text \<open>
  A request signed for a role: it has an \<^verbatim>\<open>Authorization\<close> header that
  \<^verbatim>\<open>verify_authorization_header\<close> accepts with the key of that role and the mandatory
  signed headers.
\<close>

definition signed_by ::
    "deps \<Rightarrow> (string \<Rightarrow> string option) \<Rightarrow> string list \<Rightarrow> request \<Rightarrow> bool" where
  "signed_by d key_recoverer mandatory_headers request =
     (case map_of (req_headers request) ''Authorization'' of
        None \<Rightarrow> False
      | Some h \<Rightarrow>
          verify_authorization_header d h key_recoverer
            (\<lambda>h. map_of (req_headers request) h)
            (req_method request) (req_path request) (req_query_string request)
            mandatory_headers = Inr True)"

text \<open>
  The value at a nested field of a parsed JSON value, \<open>None\<close> when the value lacks the field:
  a key that the object does not have, a key of something that is not an object, or an
  index beyond the end. (As in Python, a string has its characters at its indices.)
\<close>

fun json_path :: "json \<Rightarrow> sel list \<Rightarrow> json option" where
  "json_path j [] = Some j"
| "json_path (JObj kv) (Key k # p) = (case map_of kv k of None \<Rightarrow> None | Some v \<Rightarrow> json_path v p)"
| "json_path (JArr xs) (Idx i # p) = (if i < length xs then json_path (xs ! i) p else None)"
| "json_path (JStr cs) (Idx i # p) = (if i < length cs then json_path (JStr [cs ! i]) p else None)"
| "json_path _ _ = None"

text \<open>A value the session table can store in a \<^verbatim>\<open>NOT NULL\<close> column.\<close>

definition storable :: "json \<Rightarrow> bool" where
  "storable v =
     (case v of
        JStr s \<Rightarrow> True
      | JBool b \<Rightarrow> True
      | JInt i \<Rightarrow> - (2 ^ 63) \<le> i \<and> i < 2 ^ 63
      | _ \<Rightarrow> False)"

text \<open>The entry registered under an ip and a port, as the dictionary lookups find it.\<close>

definition lookup_env :: "registry \<Rightarrow> json \<Rightarrow> json \<Rightarrow> env_entry option" where
  "lookup_env envs ip port =
     (case dict_get envs ip of None \<Rightarrow> None | Some ports \<Rightarrow> dict_get ports port)"






subsection \<open>A concrete service for the examples\<close>

text \<open>
  Stand-ins for what the service takes from outside: every body has the same digest, an
  \<^verbatim>\<open>Authorization\<close> header is accepted when it names a key id that the key recoverer
  knows, the nodes answer 200 with an empty object, and archives are extracted without
  failure.
\<close>

text \<open>
  An extraction that never fails: every member, in archive order, is written at
  \<^verbatim>\<open>os.path.join(path, member.name)\<close>.
\<close>

definition extract_member :: "string \<Rightarrow> tar_member \<Rightarrow> filesystem \<Rightarrow> filesystem" where
  "extract_member path m fs =
     fs (os_path_join path (tm_name m) \<mapsto> (if tm_isdir m then Dir else File (tm_data m)))"

fun example_extractall :: extractor where
  "example_extractall [] path fs = (None, fs)"
| "example_extractall (m # ms) path fs = example_extractall ms path (extract_member path m fs)"

definition example_deps :: deps where
  "example_deps =
     \<lparr>NODE_SECRET = ''node-secret'', CLIENT_SECRET = ''client-secret'',
      TESTS_PATH = ''/srv/c2/test_sets'',
      b64_sha256 = (\<lambda>data. ''47DEQpj8HBSa+/TImW+5JCeuQeRkm5NMpJWZG3hSuFU=''),
      verify_authorization_header =
        (\<lambda>h key_recoverer header_recoverer m p q mandatory.
           case key_recoverer h of
             None \<Rightarrow> Inl (ValueError ''Invalid key id'')
           | Some secret \<Rightarrow> Inr True),
      new_signature = (\<lambda>secret m p. secret @ m @ p),
      new_authorization_header = (\<lambda>key_id signature. key_id @ signature),
      rq_get = (\<lambda>url. Reply 200 (Some (JObj []))),
      rq_delete = (\<lambda>url authorization. Reply 204 None),
      send_packages = (\<lambda>packages url files. Inr (Reply 204 None)),
      refresh_available = (\<lambda>files names av. Inr av),
      delete_available = (\<lambda>name av. Inr av),
      tar_extractall = example_extractall\<rparr>"

definition example_platform_info :: json where
  "example_platform_info =
     JObj [(''platform'', JStr ''Linux-5.4''),
           (''node'', JStr ''host1''),
           (''os'', JObj [(''system'', JStr ''Linux''), (''release'', JStr ''5.4''),
                          (''version'', JStr ''#1 SMP'')]),
           (''hardware'', JObj [(''machine'', JStr ''x86_64''), (''processor'', JStr ''x86_64'')]),
           (''python'', JObj [(''build'', JArr [JStr ''default'', JStr ''Jan 1 2020'']),
                              (''compiler'', JStr ''GCC 9''),
                              (''implementation'', JStr ''CPython''),
                              (''version'', JStr ''3.8.0'')])]"

text \<open>A registration of 10.0.0.1 with the given port and platform description.\<close>

definition example_registration :: "json \<Rightarrow> json \<Rightarrow> request" where
  "example_registration port platform_info =
     \<lparr>req_method = ''POST'', req_path = ''/environments'', req_query_string = [],
      req_args = [],
      req_headers = [(''Digest'', ''sha-256=47DEQpj8HBSa+/TImW+5JCeuQeRkm5NMpJWZG3hSuFU=''),
                     (''Authorization'', ''Node'')],
      req_mimetype = ''application/json'', req_data = ''{}'',
      req_json = Some (JObj [(''ip'', JStr ''10.0.0.1''), (''port'', port),
                             (''platform_info'', platform_info)]),
      req_files = []\<rparr>"

text \<open>A request without a body, signed with the given key id.\<close>

definition example_signed :: "string \<Rightarrow> string \<Rightarrow> string \<Rightarrow> request" where
  "example_signed key_id m p =
     \<lparr>req_method = m, req_path = p, req_query_string = [], req_args = [],
      req_headers = [(''Authorization'', key_id)],
      req_mimetype = [], req_data = [], req_json = None, req_files = []\<rparr>"


definition empty_state :: c2_state where
  "empty_state = \<lparr>environments = [], session = [], disk = Map.empty, available = []\<rparr>"

section \<open>Properties of the test framework library\<close>


lemma wrapper_nonconforming:
  "\<not> conforming v \<Longrightarrow> \<exists>m. wrapper name description (Inr v) = Inl (InvalidTestMethod m)"
  by (auto simp: conforming_def wrapper_def report_of_def isinstance_int_def isinstance_tuple_def
      isinstance_dict_def tuple_items_def split: pyval.splits list.splits)

lemma conforming_cases:
  "conforming v \<longleftrightarrow> isinstance_int v \<or> (\<exists>c d. isinstance_int c \<and> v = PTuple [c, PDict d])"
proof (cases v)
  case (PTuple xs)
  show ?thesis
  proof (cases xs)
    case Nil
    with PTuple show ?thesis by (simp add: conforming_def isinstance_int_def)
  next
    case (Cons a ys)
    note xs = this
    show ?thesis
    proof (cases ys)
      case Nil
      with PTuple xs show ?thesis by (simp add: conforming_def isinstance_int_def)
    next
      case (Cons b zs)
      with PTuple xs show ?thesis
        by (cases zs; cases b) (simp_all add: conforming_def isinstance_int_def)
    qed
  qed
qed (simp_all add: conforming_def isinstance_int_def)

text \<open>
  Claim C4. For a method decorated with \<^verbatim>\<open>test(name, description)\<close>: when the raw
  method returns a bare integer \<open>n\<close> (a \<^verbatim>\<open>bool\<close> counts, as in Python), the wrapped call
  returns the record with \<^verbatim>\<open>result_code = n\<close>, the name and the description, and no
  \<^verbatim>\<open>additional_info\<close> key; when it returns a pair of an integer and a dictionary, the
  record also has \<^verbatim>\<open>additional_info\<close>; every other returned value raises
  \<^verbatim>\<open>InvalidTestMethod\<close>.
\<close>

theorem test_wrapper_contract:
  "(isinstance_int n \<longrightarrow>
      wrapper name description (Inr n)
        = Inr [(''result_code'', n), (''test_name'', PStr name),
               (''test_description'', PStr description)])
   \<and> (isinstance_int c \<longrightarrow>
      wrapper name description (Inr (PTuple [c, PDict d]))
        = Inr [(''result_code'', c), (''additional_info'', PDict d),
               (''test_name'', PStr name), (''test_description'', PStr description)])
   \<and> (\<not> isinstance_int v \<and> (\<forall>c d. isinstance_int c \<longrightarrow> v \<noteq> PTuple [c, PDict d]) \<longrightarrow>
      (\<exists>m. wrapper name description (Inr v) = Inl (InvalidTestMethod m)))"
proof (intro conjI impI)
  assume "isinstance_int n"
  then show "wrapper name description (Inr n)
        = Inr [(''result_code'', n), (''test_name'', PStr name),
               (''test_description'', PStr description)]"
    by (simp add: wrapper_def)
next
  assume "isinstance_int c"
  then show "wrapper name description (Inr (PTuple [c, PDict d]))
        = Inr [(''result_code'', c), (''additional_info'', PDict d),
               (''test_name'', PStr name), (''test_description'', PStr description)]"
    by (simp add: wrapper_def isinstance_int_def isinstance_tuple_def isinstance_dict_def
        tuple_items_def)
next
  assume "\<not> isinstance_int v \<and> (\<forall>c d. isinstance_int c \<longrightarrow> v \<noteq> PTuple [c, PDict d])"
  then have "\<not> conforming v" by (auto simp: conforming_cases)
  then show "\<exists>m. wrapper name description (Inr v) = Inl (InvalidTestMethod m)"
    by (rule wrapper_nonconforming)
qed

theorem test_wrapper_contract_witness:
  "isinstance_int (PInt 1)
   \<and> wrapper ''n'' ''d'' (Inr (PInt 1))
       = Inr [(''result_code'', PInt 1), (''test_name'', PStr ''n''),
              (''test_description'', PStr ''d'')]
   \<and> isinstance_int (PInt 2)
   \<and> wrapper ''n'' ''d'' (Inr (PTuple [PInt 2, PDict []]))
       = Inr [(''result_code'', PInt 2), (''additional_info'', PDict []),
              (''test_name'', PStr ''n''), (''test_description'', PStr ''d'')]
   \<and> \<not> isinstance_int (PStr ''x'')
   \<and> \<not> (\<exists>c d. isinstance_int c \<and> PStr ''x'' = PTuple [c, PDict d])
   \<and> (\<exists>m. wrapper ''n'' ''d'' (Inr (PStr ''x'')) = Inl (InvalidTestMethod m))"
  using test_wrapper_contract [of "PInt 1" "''n''" "''d''" "PInt 2" "[]" "PStr ''x''"]
  by (simp add: isinstance_int_def)






section \<open>Properties of the reference plugin\<close>

lemma is_digit_char_of: "(n::nat) < 10 \<Longrightarrow> is_digit (char_of (48 + n))"
  by (simp add: is_digit_def)

lemma digit_val_char_of: "(n::nat) < 10 \<Longrightarrow> digit_val (char_of (48 + n)) = n"
  by (simp add: digit_val_def)

lemma is_digit_not_space: "is_digit c \<Longrightarrow> \<not> is_space c"
  by (auto simp: is_digit_def is_space_def)

lemma is_digit_not_sign: "is_digit c \<Longrightarrow> c \<noteq> CHR ''+'' \<and> c \<noteq> CHR ''-''"
  by (auto simp: is_digit_def)

lemma decimal_digits: "c \<in> set (decimal n) \<Longrightarrow> is_digit c"
proof (induction n arbitrary: c rule: decimal.induct)
  case (1 n)
  show ?case
  proof (cases "n < 10")
    case True
    with "1.prems" show ?thesis by (simp add: decimal.simps [of n] is_digit_char_of)
  next
    case False
    with "1.prems" have "c \<in> set (decimal (n div 10)) \<or> c = char_of (48 + n mod 10)"
      by (auto simp: decimal.simps [of n])
    then show ?thesis using "1.IH" False by (auto simp: is_digit_char_of)
  qed
qed

lemma decimal_nonempty: "decimal n \<noteq> []"
  by (simp add: decimal.simps [of n])

lemma parse_digits_foldl:
  "\<forall>c \<in> set ds. is_digit c \<Longrightarrow>
   parse_digits acc ds = Some (foldl (\<lambda>a c. 10 * a + digit_val c) acc ds)"
  by (induction acc ds rule: parse_digits.induct) auto

lemma foldl_decimal: "foldl (\<lambda>a c. 10 * a + digit_val c) 0 (decimal n) = n"
proof (induction n rule: decimal.induct)
  case (1 n)
  show ?case
  proof (cases "n < 10")
    case True
    then show ?thesis by (simp add: decimal.simps [of n] digit_val_char_of)
  next
    case False
    then show ?thesis using "1.IH" by (simp add: decimal.simps [of n] digit_val_char_of)
  qed
qed

lemma parse_decimal_decimal: "parse_decimal (decimal n) = Some n"
proof -
  obtain c cs where d: "decimal n = c # cs" using decimal_nonempty [of n] by (cases "decimal n") auto
  have dig: "\<forall>x \<in> set (c # cs). is_digit x" using decimal_digits [of _ n] d by auto
  have "parse_decimal (c # cs) = parse_digits (digit_val c) cs"
    using dig by (simp add: parse_decimal_def)
  also have "\<dots> = Some (foldl (\<lambda>a c. 10 * a + digit_val c) (digit_val c) cs)"
    using dig by (intro parse_digits_foldl) simp
  also have "foldl (\<lambda>a c. 10 * a + digit_val c) (digit_val c) cs
      = foldl (\<lambda>a c. 10 * a + digit_val c) 0 (c # cs)" by simp
  finally show ?thesis using foldl_decimal [of n] d by simp
qed

lemma dropWhile_hd: "xs \<noteq> [] \<Longrightarrow> \<not> P (hd xs) \<Longrightarrow> dropWhile P xs = xs"
  by (cases xs) auto

lemma is_digit_not_int_space: "is_digit c \<Longrightarrow> \<not> int_space c"
  by (auto simp: is_digit_def int_space_def)

lemma int_strip_decimal: "int_strip (decimal n) = decimal n"
proof -
  have ne: "decimal n \<noteq> []" by (rule decimal_nonempty)
  have h: "\<not> int_space (hd (decimal n))"
    using ne decimal_digits [of "hd (decimal n)" n] is_digit_not_int_space by auto
  have l: "\<not> int_space (hd (rev (decimal n)))"
    using ne decimal_digits [of "last (decimal n)" n] is_digit_not_int_space
    by (auto simp: hd_rev)
  show ?thesis using ne h l by (simp add: int_strip_def dropWhile_hd)
qed

lemma py_int_of_str_decimal: "py_int_of_str (decimal n) = Some (int n)"
proof -
  obtain c cs where d: "decimal n = c # cs" using decimal_nonempty [of n] by (cases "decimal n") auto
  have "is_digit c" using decimal_digits [of c n] d by simp
  then have "c \<noteq> CHR ''+'' \<and> c \<noteq> CHR ''-''" by (rule is_digit_not_sign)
  moreover have "int_strip (c # cs) = c # cs" using int_strip_decimal [of n] d by simp
  moreover have "parse_decimal (c # cs) = Some n" using parse_decimal_decimal [of n] d by simp
  ultimately show ?thesis using d by (simp add: py_int_of_str_def)
qed

lemma split_ws_nonspace:
  "\<forall>c \<in> set w. \<not> is_space c \<Longrightarrow> split_ws cur (w @ rest) = split_ws (cur @ w) rest"
  by (induction w arbitrary: cur) auto

lemma py_split_tracer_pid_line: "py_split (tracer_pid_line pid) = [''TracerPid:'', decimal pid]"
proof -
  have a: "\<forall>c \<in> set ''TracerPid:''. \<not> is_space c" by (simp add: is_space_def)
  have b: "\<forall>c \<in> set (decimal pid). \<not> is_space c"
    using decimal_digits is_digit_not_space by blast
  have "split_ws [] (''TracerPid:'' @ (CHR 0x09 # decimal pid @ [CHR 0x0A]))
      = split_ws ([] @ ''TracerPid:'') (CHR 0x09 # decimal pid @ [CHR 0x0A])"
    using a by (rule split_ws_nonspace)
  also have "\<dots> = ''TracerPid:'' # split_ws [] (decimal pid @ [CHR 0x0A])"
    by (simp add: is_space_def)
  also have "split_ws [] (decimal pid @ [CHR 0x0A]) = split_ws ([] @ decimal pid) [CHR 0x0A]"
    using b by (rule split_ws_nonspace)
  also have "\<dots> = [decimal pid]" by (simp add: is_space_def decimal_nonempty)
  finally show ?thesis by (simp add: py_split_def tracer_pid_line_def)
qed

lemma tracer_line_found:
  "\<forall>l \<in> set pre. \<not> startswith l ''TracerPid'' \<Longrightarrow> startswith L ''TracerPid'' \<Longrightarrow>
   tracer_line line (pre @ L # post) = Some L"
  by (induction pre arbitrary: line) auto

lemma startswith_tracer_pid_line: "startswith (tracer_pid_line pid) ''TracerPid''"
  by (simp add: startswith_def tracer_pid_line_def)

lemma is_tracer_attached_raw_shape:
  "is_tracer_attached_raw f = Inr v \<Longrightarrow>
   \<exists>pid. v = PTuple [PInt (if pid = 0 then 1 else - 1), PDict [(PStr ''found_pid'', PInt pid)]]"
  by (auto simp: is_tracer_attached_raw_def split: option.splits list.splits)

lemma is_tracer_attached_raw_kernel:
  "\<forall>l \<in> set pre. \<not> startswith l ''TracerPid'' \<Longrightarrow>
   is_tracer_attached_raw (Some (pre @ tracer_pid_line pid # post))
     = Inr (PTuple [PInt (if pid = 0 then 1 else - 1),
                    PDict [(PStr ''found_pid'', PInt (int pid))]])"
  by (simp add: is_tracer_attached_raw_def tracer_line_found startswith_tracer_pid_line
      py_split_tracer_pid_line py_int_of_str_decimal)


text \<open>
  Claim C10. Whenever the raw test of the reference plugin returns, it returns the pair of a
  result code and \<^verbatim>\<open>{'found_pid': pid}\<close>, the code being 1 exactly when \<open>pid\<close> is 0 and
  -1 otherwise. On a status file whose first line starting with \<^verbatim>\<open>TracerPid\<close> is the
  line the kernel writes for the tracer pid, \<open>pid\<close> is that tracer pid, and the wrapped
  test returns the report with this result code and \<^verbatim>\<open>additional_info\<close>.
\<close>

theorem is_tracer_attached_result:
  "(\<forall>v. is_tracer_attached_raw f = Inr v \<longrightarrow>
      (\<exists>pid. v = PTuple [PInt (if pid = 0 then 1 else - 1),
                          PDict [(PStr ''found_pid'', PInt pid)]]))
   \<and> ((\<forall>l \<in> set pre. \<not> startswith l ''TracerPid'') \<longrightarrow>
      call_method (is_tracer_attached (Some (pre @ tracer_pid_line pid # post)))
        = Inr [(''result_code'', PInt (if pid = 0 then 1 else - 1)),
               (''additional_info'', PDict [(PStr ''found_pid'', PInt (int pid))]),
               (''test_name'', PStr ''Is tracer attached?''),
               (''test_description'', PStr ''Looks for a TracerPid different than 0.'')])"
proof (intro conjI allI impI)
  fix v assume "is_tracer_attached_raw f = Inr v"
  then show "\<exists>pid. v = PTuple [PInt (if pid = 0 then 1 else - 1),
                          PDict [(PStr ''found_pid'', PInt pid)]]"
    by (rule is_tracer_attached_raw_shape)
next
  assume "\<forall>l \<in> set pre. \<not> startswith l ''TracerPid''"
  then show "call_method (is_tracer_attached (Some (pre @ tracer_pid_line pid # post)))
        = Inr [(''result_code'', PInt (if pid = 0 then 1 else - 1)),
               (''additional_info'', PDict [(PStr ''found_pid'', PInt (int pid))]),
               (''test_name'', PStr ''Is tracer attached?''),
               (''test_description'', PStr ''Looks for a TracerPid different than 0.'')]"
    by (simp add: call_method_def is_tracer_attached_def is_tracer_attached_raw_kernel
        wrapper_def isinstance_int_def isinstance_tuple_def isinstance_dict_def tuple_items_def)
qed

theorem is_tracer_attached_result_witness:
  "is_tracer_attached_raw (Some [''TracerPid: 7''])
       = Inr (PTuple [PInt (- 1), PDict [(PStr ''found_pid'', PInt 7)]])
   \<and> (\<exists>pid. PTuple [PInt (- 1), PDict [(PStr ''found_pid'', PInt 7)]]
         = PTuple [PInt (if pid = 0 then 1 else - 1), PDict [(PStr ''found_pid'', PInt pid)]])
   \<and> \<not> startswith ''Name: python'' ''TracerPid''
   \<and> call_method (is_tracer_attached
         (Some ([''Name: python''] @ tracer_pid_line 0 # [''Uid: 0''])))
       = Inr [(''result_code'', PInt 1),
              (''additional_info'', PDict [(PStr ''found_pid'', PInt 0)]),
              (''test_name'', PStr ''Is tracer attached?''),
              (''test_description'', PStr ''Looks for a TracerPid different than 0.'')]
   \<and> call_method (is_tracer_attached
         (Some ([''Name: python''] @ tracer_pid_line 4242 # [''Uid: 0''])))
       = Inr [(''result_code'', PInt (- 1)),
              (''additional_info'', PDict [(PStr ''found_pid'', PInt 4242)]),
              (''test_name'', PStr ''Is tracer attached?''),
              (''test_description'', PStr ''Looks for a TracerPid different than 0.'')]"
proof -
  have raw: "is_tracer_attached_raw (Some [''TracerPid: 7''])
       = Inr (PTuple [PInt (- 1), PDict [(PStr ''found_pid'', PInt 7)]])"
    by (simp add: is_tracer_attached_raw_def startswith_def py_split_def is_space_def
        py_int_of_str_def int_strip_def int_space_def parse_decimal_def is_digit_def
        digit_val_def)
  show ?thesis
    using raw
      is_tracer_attached_result [of "Some [''TracerPid: 7'']" "[''Name: python'']" 0 "[''Uid: 0'']"]
      is_tracer_attached_result [of "Some [''TracerPid: 7'']" "[''Name: python'']" 4242 "[''Uid: 0'']"]
    by (simp add: startswith_def)
qed

section \<open>Properties of package decompression\<close>



lemma uncompress_test_packages_extract_error:
  "check_members tar tar [] = Inr new_packages \<Longrightarrow>
   extractall tar tests_root fs = (Some e, fs') \<Longrightarrow>
   uncompress_test_packages extractall (Some tar) tests_root fs = (Inl e, fs')"
  by (simp add: uncompress_test_packages_def)



text \<open>
  Claim C1 as stated fails for an archive whose only member is the regular file
  \<^verbatim>\<open>./evil.py\<close>: the file is at the top level of the archive and is no package, but its
  name holds a slash, so the check passes it over; no \<^verbatim>\<open>ValueError\<close> is raised, the
  returned list is empty, and the file is extracted.
\<close>

theorem uncompress_dot_slash_counterexample:
  "fst (uncompress_test_packages example_extractall
       (Some [\<lparr>tm_name = ''./evil.py'', tm_isdir = False, tm_data = ''x''\<rparr>])
       ''/srv/test_sets'' Map.empty) = Inr []
   \<and> snd (uncompress_test_packages example_extractall
       (Some [\<lparr>tm_name = ''./evil.py'', tm_isdir = False, tm_data = ''x''\<rparr>])
       ''/srv/test_sets'' Map.empty) ''/srv/test_sets/./evil.py'' = Some (File ''x'')"
  by (simp add: uncompress_test_packages_def extract_member_def os_path_join_def startswith_def)

section \<open>Properties of the C2 service\<close>

subsection \<open>Gates\<close>

lemma startswith_append: "startswith h p \<Longrightarrow> h = p @ drop (length p) h"
  by (metis startswith_def append_take_drop_id)

lemma after_first_eq_sha256: "after_first_eq (''sha-256='' @ rest) = Some rest"
  by (simp add: after_first_eq_def)

lemma check_digest_header_None:
  "check_digest_header d request = None \<longleftrightarrow> digest_matches d request"
proof (cases "map_of (req_headers request) ''Digest''")
  case None
  then show ?thesis by (simp add: check_digest_header_def digest_matches_def)
next
  case (Some h)
  show ?thesis
  proof (cases "startswith h ''sha-256=''")
    case False
    have "startswith (''sha-256='' @ b64_sha256 d (req_data request)) ''sha-256=''"
      by (simp add: startswith_def)
    with False have "h \<noteq> ''sha-256='' @ b64_sha256 d (req_data request)" by auto
    with Some False show ?thesis by (simp add: check_digest_header_def digest_matches_def)
  next
    case True
    from startswith_append [OF True] obtain rest where h: "h = ''sha-256='' @ rest" by blast
    have a: "after_first_eq h = Some rest" unfolding h by (rule after_first_eq_sha256)
    have "check_digest_header d request
        = (if b64_sha256 d (req_data request) \<noteq> rest
           then Some (abort 400 ''Given digest does not match content.'') else None)"
      using Some True a by (simp add: check_digest_header_def)
    moreover have "digest_matches d request \<longleftrightarrow> rest = b64_sha256 d (req_data request)"
      using Some unfolding h digest_matches_def by (simp only: option.inject same_append_eq)
    ultimately show ?thesis by auto
  qed
qed

lemma check_digest_header_status:
  "check_digest_header d request = Some r \<Longrightarrow> status_code r = 400 \<or> status_code r = 500"
  by (auto simp: check_digest_header_def abort_def internal_server_error_def
      split: option.splits if_splits)

lemma check_authorization_header_None:
  "check_authorization_header d key_recoverer mandatory request = None
     \<longleftrightarrow> signed_by d key_recoverer mandatory request"
  by (auto simp: check_authorization_header_def signed_by_def
      split: option.splits sum.splits exn.splits)

lemma check_authorization_header_status:
  "check_authorization_header d key_recoverer mandatory request = Some r \<Longrightarrow> status_code r = 401"
  by (auto simp: check_authorization_header_def abort_def
      split: option.splits sum.splits exn.splits if_splits)

lemma check_is_json_None: "check_is_json request = None \<longleftrightarrow> is_json request"
  by (simp add: check_is_json_def)

subsection \<open>Dictionaries\<close>

lemma py_eq_refl: "py_eq k k"
  by (simp add: py_eq_def split: option.splits)

lemma py_eq_sym: "py_eq a b \<Longrightarrow> py_eq b a"
  by (auto simp: py_eq_def split: option.splits)

lemma py_eq_trans: "py_eq a b \<Longrightarrow> py_eq b c \<Longrightarrow> py_eq a c"
  by (auto simp: py_eq_def split: option.splits)

lemma py_eq_JStr: "py_eq (JStr s) k \<longleftrightarrow> k = JStr s"
  by (auto simp: py_eq_def key_num_def split: option.splits json.splits)


lemma py_eq_cong: "py_eq a b \<Longrightarrow> py_eq a c \<longleftrightarrow> py_eq b c"
  using py_eq_sym py_eq_trans by blast

lemma dict_get_set:
  "dict_get (dict_set dct k v) k' = (if py_eq k k' then Some v else dict_get dct k')"
proof (induction dct)
  case Nil
  then show ?case by simp
next
  case (Cons a dct)
  obtain k0 v0 where a: "a = (k0, v0)" by (cases a)
  show ?case
  proof (cases "py_eq k0 k")
    case True
    then have "py_eq k0 k' \<longleftrightarrow> py_eq k k'" by (rule py_eq_cong)
    with True a show ?thesis by simp
  next
    case False
    then have "\<not> (py_eq k0 k' \<and> py_eq k k')" using py_eq_sym py_eq_trans by blast
    with False a Cons.IH show ?thesis by auto
  qed
qed


subsection \<open>The session table\<close>

lemma max_rowid_ge: "r \<in> set tbl \<Longrightarrow> id_session r \<le> max_rowid tbl"
  by (induction tbl) auto

lemma find_fresh:
  "\<forall>r \<in> set tbl. id_session r \<noteq> id_session row \<Longrightarrow>
   find (\<lambda>r. id_session r = id_session row) (tbl @ [row]) = Some row"
  by (induction tbl) auto

lemma insert_session_Inr:
  "insert_session now to_insert tbl = Inr (tbl', rowid) \<Longrightarrow>
   \<exists>row. tbl' = tbl @ [row] \<and> id_session row = rowid \<and> row_session_start row = now
     \<and> row_session_end row = None \<and> rowid = max_rowid tbl + 1
     \<and> rowid \<notin> id_session ` set tbl"
proof -
  assume a: "insert_session now to_insert tbl = Inr (tbl', rowid)"
  have "max_rowid tbl + 1 \<notin> id_session ` set tbl"
    using max_rowid_ge [of _ tbl] by fastforce
  with a show ?thesis
    by (auto simp: insert_session_def Let_def split: sum.splits if_splits)
qed

lemma select_after_insert:
  "insert_session now to_insert tbl = Inr (tbl', rowid) \<Longrightarrow>
   select_session_start tbl' rowid
     = Inr (case strftime_iso now of None \<Rightarrow> JNull | Some s \<Rightarrow> JStr s)"
proof -
  assume a: "insert_session now to_insert tbl = Inr (tbl', rowid)"
  from insert_session_Inr [OF a] obtain row where
    row: "tbl' = tbl @ [row]" "id_session row = rowid" "row_session_start row = now"
      "rowid \<notin> id_session ` set tbl" by blast
  then have "\<forall>r \<in> set tbl. id_session r \<noteq> id_session row" by (metis imageI)
  from find_fresh [OF this] row show ?thesis
    by (simp add: select_session_start_def split: option.splits)
qed









subsection \<open>Reading the body\<close>

lemma py_subscripts_Some: "json_path j p = Some v \<Longrightarrow> py_subscripts j p = Inr v"
  by (induction j p rule: json_path.induct)
     (auto simp: py_getitem_def split: option.splits if_splits sel.splits)

lemma py_subscripts_None: "json_path j p = None \<Longrightarrow> \<exists>e. py_subscripts j p = Inl e"
  by (induction j p rule: json_path.induct)
     (auto simp: py_getitem_def split: option.splits if_splits sel.splits)


lemma read_fields_fails:
  "\<exists>p \<in> set ps. json_path obj p = None \<Longrightarrow> \<exists>e. read_fields obj ps = Inl e"
proof (induction ps)
  case Nil
  then show ?case by simp
next
  case (Cons p ps)
  show ?case
  proof (cases "json_path obj p")
    case None
    from py_subscripts_None [OF this] show ?thesis by auto
  next
    case (Some v)
    with Cons.prems have "\<exists>p \<in> set ps. json_path obj p = None" by auto
    from Cons.IH [OF this] py_subscripts_Some [OF Some] show ?thesis by auto
  qed
qed


lemma map_of_key: "map_of kv k = Some v \<Longrightarrow> k \<in> fst ` set kv"
  by (metis map_of_eq_None_iff option.distinct(1))

lemma required_keys_present_obj:
  "map_of kv ''ip'' = Some a \<Longrightarrow> map_of kv ''port'' = Some b \<Longrightarrow>
   map_of kv ''platform_info'' = Some c \<Longrightarrow> required_keys_present (JObj kv) = Inr True"
  by (simp add: required_keys_present_def py_in_def map_of_key)

lemma required_keys_missing_obj:
  "map_of kv ''ip'' = None \<or> map_of kv ''port'' = None \<or> map_of kv ''platform_info'' = None
   \<Longrightarrow> required_keys_present (JObj kv) = Inr False"
  by (auto simp: required_keys_present_def py_in_def map_of_eq_None_iff split: sum.splits bool.splits)

lemma build_to_insert_fails:
  "map_of kv ''platform_info'' = Some pinfo \<Longrightarrow>
   \<exists>p \<in> set platform_fields. json_path pinfo p = None \<Longrightarrow>
   \<exists>e. build_to_insert (JObj kv) = Inl e"
  using read_fields_fails [of platform_fields pinfo]
  by (auto simp: build_to_insert_def py_getitem_def split: option.splits sum.splits)


lemma build_to_insert_Inr:
  "build_to_insert j = Inr (ip, port, to_insert) \<Longrightarrow>
   py_getitem j (Key ''ip'') = Inr ip \<and> py_getitem j (Key ''port'') = Inr port
     \<and> (\<exists>p. py_int port = Inr p)"
  by (auto simp: build_to_insert_def split: sum.splits)

lemma py_int_hashable: "py_int port = Inr p \<Longrightarrow> hashable port"
  by (cases port) (auto simp: py_int_def hashable_def)

lemma storable_hashable: "storable v \<Longrightarrow> hashable v"
  by (cases v) (auto simp: storable_def hashable_def)


subsection \<open>Registering and removing an environment\<close>

lemma dict_get_cong: "py_eq k k' \<Longrightarrow> dict_get dct k = dict_get dct k'"
proof (induction dct)
  case Nil
  then show ?case by simp
next
  case (Cons a dct)
  obtain k0 v0 where a: "a = (k0, v0)" by (cases a)
  have "py_eq k0 k \<longleftrightarrow> py_eq k0 k'"
    using Cons.prems py_eq_sym py_eq_trans by blast
  with a Cons show ?case by simp
qed

lemma dict_set_twice: "dict_set (dict_set dct k a) k b = dict_set dct k b"
proof (induction dct)
  case Nil
  then show ?case by (simp add: py_eq_refl)
next
  case (Cons x dct)
  obtain k0 v0 where x: "x = (k0, v0)" by (cases x)
  with Cons show ?case by simp
qed

lemma register_eq:
  "dict_set (if dict_get envs ip = None then dict_set envs ip [] else envs) ip
     (dict_set (case dict_get (if dict_get envs ip = None then dict_set envs ip [] else envs) ip
                of None \<Rightarrow> [] | Some ports \<Rightarrow> ports) port e)
   = dict_set envs ip
       (dict_set (case dict_get envs ip of None \<Rightarrow> [] | Some ports \<Rightarrow> ports) port e)"
  by (simp add: dict_set_twice dict_get_set py_eq_refl)

lemma lookup_env_register:
  "lookup_env (dict_set envs ip
       (dict_set (case dict_get envs ip of None \<Rightarrow> [] | Some ports \<Rightarrow> ports) port e)) ip' port'
   = (if py_eq ip ip' \<and> py_eq port port' then Some e else lookup_env envs ip' port')"
proof (cases "py_eq ip ip'")
  case False
  then show ?thesis by (simp add: lookup_env_def dict_get_set)
next
  case True
  then have "dict_get envs ip' = dict_get envs ip" using dict_get_cong py_eq_sym by metis
  with True show ?thesis
    by (cases "dict_get envs ip") (simp_all add: lookup_env_def dict_get_set)
qed




lemma add_environment_500:
  assumes "digest_matches d request"
    and "signed_by d (node_key_recoverer d) [''Digest''] request"
    and "is_json request" and "req_json request = Some j"
    and "required_keys_present j = Inr True"
    and "build_to_insert j = Inl e"
  shows "add_environment d now request st = (internal_server_error, st)"
proof -
  have g1: "check_digest_header d request = None"
    using assms(1) by (simp add: check_digest_header_None)
  have g2: "check_authorization_header d (node_key_recoverer d) [''Digest''] request = None"
    using assms(2) by (simp add: check_authorization_header_None)
  have g3: "check_is_json request = None" using assms(3) by (simp add: check_is_json_None)
  show ?thesis
    using assms(4-6) by (simp add: add_environment_def g1 g2 g3 request_json_def)
qed



lemma status_code_abort: "status_code (abort c m) = c"
  by (simp add: abort_def)

lemma status_code_ise: "status_code internal_server_error = 500"
  by (simp add: internal_server_error_def abort_def)

lemma status_code_no_content: "status_code no_content = 204"
  by (simp add: no_content_def)

lemma add_environment_204:
  assumes "add_environment d now request st = (r, st')" and "status_code r = 204"
  shows "\<exists>j ip port to_insert tbl rowid.
      req_json request = Some j \<and> build_to_insert j = Inr (ip, port, to_insert)
      \<and> insert_session now to_insert (session st) = Inr (tbl, rowid)
      \<and> r = no_content
      \<and> st' = st\<lparr>session := tbl,
          environments := dict_set (environments st) ip
            (dict_set (case dict_get (environments st) ip of None \<Rightarrow> [] | Some ports \<Rightarrow> ports)
               port \<lparr>session_id = rowid,
                      session_start = (case strftime_iso now of None \<Rightarrow> JNull
                                       | Some s \<Rightarrow> JStr s)\<rparr>)\<rparr>"
proof (cases "check_digest_header d request")
  case (Some x)
  with assms check_digest_header_status [OF Some] show ?thesis
    by (auto simp: add_environment_def)
next
  case g1: None
  show ?thesis
  proof (cases "check_authorization_header d (node_key_recoverer d) [''Digest''] request")
    case (Some x)
    with assms g1 check_authorization_header_status [OF Some] show ?thesis
      by (auto simp: add_environment_def)
  next
    case g2: None
    show ?thesis
    proof (cases "is_json request")
      case False
      with assms g1 g2 show ?thesis
        by (auto simp: add_environment_def check_is_json_def status_code_abort)
    next
      case True
      then have g3: "check_is_json request = None" by (simp add: check_is_json_def)
      show ?thesis
      proof (cases "req_json request")
        case None
        with assms g1 g2 g3 show ?thesis
          by (auto simp: add_environment_def request_json_def status_code_abort)
      next
        case (Some j)
        then have g4: "request_json request = Inr j" by (simp add: request_json_def)
        show ?thesis
        proof (cases "required_keys_present j")
          case (Inl e)
          with assms g1 g2 g3 g4 show ?thesis
            by (auto simp: add_environment_def status_code_ise)
        next
          case (Inr b)
          show ?thesis
          proof (cases b)
            case False
            with Inr assms g1 g2 g3 g4 show ?thesis
              by (auto simp: add_environment_def status_code_abort)
          next
            case True
            with Inr have g5: "required_keys_present j = Inr True" by simp
            show ?thesis
            proof (cases "build_to_insert j")
              case (Inl e)
              with assms g1 g2 g3 g4 g5 show ?thesis
                by (auto simp: add_environment_def status_code_ise)
            next
              case (Inr t)
              then obtain ip port to_insert where
                g6: "build_to_insert j = Inr (ip, port, to_insert)" by (cases t) auto
              show ?thesis
              proof (cases "insert_session now to_insert (session st)")
                case (Inl e)
                with assms g1 g2 g3 g4 g5 g6 show ?thesis
                  by (auto simp: add_environment_def status_code_ise)
              next
                case (Inr u)
                then obtain tbl rowid where
                  g7: "insert_session now to_insert (session st) = Inr (tbl, rowid)"
                  by (cases u) auto
                note sel = select_after_insert [OF g7]
                from assms g1 g2 g3 g4 g5 g6 g7 Some show ?thesis
                  by (auto simp: add_environment_def sel Let_def register_eq status_code_ise
                      split: if_splits)
              qed
            qed
          qed
        qed
      qed
    qed
  qed
qed


subsection \<open>The request handlers\<close>

lemma example_gates:
  "digest_matches example_deps (example_registration port pinfo)"
  "signed_by example_deps (node_key_recoverer example_deps) [''Digest'']
     (example_registration port pinfo)"
  "is_json (example_registration port pinfo)"
  by (simp_all add: digest_matches_def signed_by_def is_json_def example_deps_def
      example_registration_def node_key_recoverer_def)

lemma check_digest_header_Some:
  "check_digest_header d request = Some r \<Longrightarrow> \<exists>m. r = abort 400 m"
proof (cases "map_of (req_headers request) ''Digest''")
  case None
  assume "check_digest_header d request = Some r"
  with None show ?thesis by (auto simp: check_digest_header_def)
next
  case (Some h)
  assume a: "check_digest_header d request = Some r"
  show ?thesis
  proof (cases "startswith h ''sha-256=''")
    case False
    with a Some show ?thesis by (auto simp: check_digest_header_def)
  next
    case True
    from startswith_append [OF True] obtain rest where h: "h = ''sha-256='' @ rest" by blast
    have "after_first_eq h = Some rest" unfolding h by (rule after_first_eq_sha256)
    with a Some True show ?thesis by (auto simp: check_digest_header_def split: if_splits)
  qed
qed

text \<open>
  Claim C9. A \<^verbatim>\<open>POST /environments\<close> request passes the Digest, Node-authorization and
  JSON gates and its body is an object with the keys \<^verbatim>\<open>ip\<close>, \<^verbatim>\<open>port\<close> and
  \<^verbatim>\<open>platform_info\<close>. If \<^verbatim>\<open>platform_info\<close> lacks one of the nested fields the handler
  reads, the response is the 500 error of an uncaught exception, and the state of the
  service (session table and registry) is as before.
\<close>

theorem add_environment_missing_field:
  assumes "digest_matches d request"
    and "signed_by d (node_key_recoverer d) [''Digest''] request"
    and "is_json request"
    and "req_json request = Some (JObj kv)"
    and "map_of kv ''ip'' = Some ip"
    and "map_of kv ''port'' = Some port"
    and "map_of kv ''platform_info'' = Some platform_info"
    and "\<exists>f \<in> set platform_fields. json_path platform_info f = None"
  shows "add_environment d now request st = (internal_server_error, st)
    \<and> status_code internal_server_error = 500"
proof -
  from build_to_insert_fails [OF assms(7) assms(8)] obtain e where
    e: "build_to_insert (JObj kv) = Inl e" by blast
  note k = required_keys_present_obj [OF assms(5) assms(6) assms(7)]
  from add_environment_500 [OF assms(1) assms(2) assms(3) assms(4) k e]
  show ?thesis by (simp add: status_code_ise)
qed

theorem add_environment_missing_field_witness:
  "json_path (JObj [(''platform'', JStr ''Linux-5.4'')]) [Key ''node''] = None
   \<and> add_environment example_deps 0
        (example_registration (JStr ''5000'') (JObj [(''platform'', JStr ''Linux-5.4'')]))
        empty_state
      = (internal_server_error, empty_state)
   \<and> status_code internal_server_error = 500"
  using add_environment_missing_field
    [of example_deps "example_registration (JStr ''5000'') (JObj [(''platform'', JStr ''Linux-5.4'')])"
        "[(''ip'', JStr ''10.0.0.1''), (''port'', JStr ''5000''),
          (''platform_info'', JObj [(''platform'', JStr ''Linux-5.4'')])]"
        "JStr ''10.0.0.1''" "JStr ''5000''" "JObj [(''platform'', JStr ''Linux-5.4'')]"
        0 empty_state]
    example_gates [of "JStr ''5000''" "JObj [(''platform'', JStr ''Linux-5.4'')]"]
  by (simp add: example_registration_def platform_fields_def)

text \<open>
  Claim C3, as amended. For a \<^verbatim>\<open>POST /environments\<close> request that passes the Digest and
  Node-authorization gates: when the content type is not JSON the response is 415; when
  the content type is JSON and the body does not parse as JSON, or parses to an object in
  which one of \<^verbatim>\<open>ip\<close>, \<^verbatim>\<open>port\<close>, \<^verbatim>\<open>platform_info\<close> is absent, the response is 400. Each
  time the body is the JSON error object and the state is as before.
\<close>

theorem add_environment_bad_body:
  assumes "digest_matches d request"
    and "signed_by d (node_key_recoverer d) [''Digest''] request"
  shows "(\<not> is_json request \<longrightarrow>
        add_environment d now request st
          = (abort 415 ''Content Type is not application/json'', st))
    \<and> (is_json request \<and> req_json request = None \<longrightarrow>
        (\<exists>m. add_environment d now request st = (abort 400 m, st)))
    \<and> (is_json request \<and> req_json request = Some (JObj kv)
         \<and> (map_of kv ''ip'' = None \<or> map_of kv ''port'' = None
              \<or> map_of kv ''platform_info'' = None) \<longrightarrow>
        add_environment d now request st
          = (abort 400 ''One or more keys missing in request's body'', st))
    \<and> resp_body (abort code m) = ErrorBody code m \<and> status_code (abort code m) = code"
proof -
  have g1: "check_digest_header d request = None"
    using assms(1) by (simp add: check_digest_header_None)
  have g2: "check_authorization_header d (node_key_recoverer d) [''Digest''] request = None"
    using assms(2) by (simp add: check_authorization_header_None)
  have a: "\<not> is_json request \<longrightarrow>
        add_environment d now request st
          = (abort 415 ''Content Type is not application/json'', st)"
    by (simp add: add_environment_def g1 g2 check_is_json_def)
  have b: "is_json request \<and> req_json request = None \<longrightarrow>
        (\<exists>m. add_environment d now request st = (abort 400 m, st))"
    by (auto simp: add_environment_def g1 g2 check_is_json_def request_json_def)
  have c: "is_json request \<and> req_json request = Some (JObj kv)
         \<and> (map_of kv ''ip'' = None \<or> map_of kv ''port'' = None
              \<or> map_of kv ''platform_info'' = None) \<longrightarrow>
        add_environment d now request st
          = (abort 400 ''One or more keys missing in request's body'', st)"
  proof
    assume h: "is_json request \<and> req_json request = Some (JObj kv)
         \<and> (map_of kv ''ip'' = None \<or> map_of kv ''port'' = None
              \<or> map_of kv ''platform_info'' = None)"
    then have "required_keys_present (JObj kv) = Inr False"
      by (intro required_keys_missing_obj) simp
    with h show "add_environment d now request st
          = (abort 400 ''One or more keys missing in request's body'', st)"
      by (simp add: add_environment_def g1 g2 check_is_json_def request_json_def)
  qed
  from a b c show ?thesis by (simp add: abort_def)
qed

theorem add_environment_bad_body_witness:
  "add_environment example_deps 0
       ((example_registration (JStr ''5000'') example_platform_info)
          \<lparr>req_mimetype := ''text/plain''\<rparr>) empty_state
     = (abort 415 ''Content Type is not application/json'', empty_state)
   \<and> (\<exists>m. add_environment example_deps 0
       ((example_registration (JStr ''5000'') example_platform_info)
          \<lparr>req_json := None\<rparr>) empty_state = (abort 400 m, empty_state))
   \<and> add_environment example_deps 0
       ((example_registration (JStr ''5000'') example_platform_info)
          \<lparr>req_json := Some (JObj [(''ip'', JStr ''10.0.0.1'')])\<rparr>) empty_state
     = (abort 400 ''One or more keys missing in request's body'', empty_state)"
  using add_environment_bad_body
    [of example_deps "(example_registration (JStr ''5000'') example_platform_info)
          \<lparr>req_mimetype := ''text/plain''\<rparr>" 0 empty_state "[]" 415 "[]"]
    add_environment_bad_body
    [of example_deps "(example_registration (JStr ''5000'') example_platform_info)
          \<lparr>req_json := None\<rparr>" 0 empty_state "[]" 415 "[]"]
    add_environment_bad_body
    [of example_deps "(example_registration (JStr ''5000'') example_platform_info)
          \<lparr>req_json := Some (JObj [(''ip'', JStr ''10.0.0.1'')])\<rparr>" 0 empty_state
        "[(''ip'', JStr ''10.0.0.1'')]" 415 "[]"]
  by (simp add: digest_matches_def signed_by_def is_json_def example_deps_def
      example_registration_def node_key_recoverer_def startswith_def endswith_def)

text \<open>
  Claim C3 as stated fails: a request that passes both gates and whose body is not declared
  as JSON is answered with 415, not 400.
\<close>

theorem add_environment_not_json_counterexample:
  "digest_matches example_deps
       ((example_registration (JStr ''5000'') example_platform_info)
          \<lparr>req_mimetype := ''text/plain'', req_data := ''hello'', req_json := None\<rparr>)
   \<and> signed_by example_deps (node_key_recoverer example_deps) [''Digest'']
       ((example_registration (JStr ''5000'') example_platform_info)
          \<lparr>req_mimetype := ''text/plain'', req_data := ''hello'', req_json := None\<rparr>)
   \<and> status_code (fst (add_environment example_deps 0
       ((example_registration (JStr ''5000'') example_platform_info)
          \<lparr>req_mimetype := ''text/plain'', req_data := ''hello'', req_json := None\<rparr>)
       empty_state)) = 415"
  by (simp add: digest_matches_def signed_by_def example_deps_def example_registration_def
      node_key_recoverer_def add_environment_def check_digest_header_def startswith_def
      endswith_def after_first_eq_def check_authorization_header_def check_is_json_def
      is_json_def abort_def)

text \<open>
  Claim C7. A \<^verbatim>\<open>PATCH /test_sets\<close> request whose content type is not
  \<^verbatim>\<open>multipart/form-data\<close> is answered with 415, whatever its headers; one with that
  content type whose \<^verbatim>\<open>Digest\<close> header is absent, does not start with \<^verbatim>\<open>sha-256=\<close> or
  does not match the body is answered with 400. Both times the state, and with it the
  test-set root, is as before.
\<close>

theorem upload_test_sets_gates:
  "(req_mimetype request \<noteq> ''multipart/form-data'' \<longrightarrow>
      upload_test_sets d request st = (abort 415 ''Invalid request's content type'', st))
   \<and> (req_mimetype request = ''multipart/form-data''
       \<and> (map_of (req_headers request) ''Digest'' = None
           \<or> (\<exists>h. map_of (req_headers request) ''Digest'' = Some h
                 \<and> (\<not> startswith h ''sha-256=''
                      \<or> h \<noteq> ''sha-256='' @ b64_sha256 d (req_data request)))) \<longrightarrow>
      (\<exists>m. upload_test_sets d request st = (abort 400 m, st)))
   \<and> status_code (abort code m) = code"
proof (intro conjI impI)
  assume "req_mimetype request \<noteq> ''multipart/form-data''"
  then show "upload_test_sets d request st = (abort 415 ''Invalid request's content type'', st)"
    by (simp add: upload_test_sets_def)
next
  assume a: "req_mimetype request = ''multipart/form-data''
       \<and> (map_of (req_headers request) ''Digest'' = None
           \<or> (\<exists>h. map_of (req_headers request) ''Digest'' = Some h
                 \<and> (\<not> startswith h ''sha-256=''
                      \<or> h \<noteq> ''sha-256='' @ b64_sha256 d (req_data request))))"
  then have "\<not> digest_matches d request" by (auto simp: digest_matches_def startswith_def)
  then have "check_digest_header d request \<noteq> None" by (simp add: check_digest_header_None)
  then obtain r where r: "check_digest_header d request = Some r" by auto
  from check_digest_header_Some [OF r] obtain msg where "r = abort 400 msg" by blast
  with r a have "upload_test_sets d request st = (abort 400 msg, st)"
    by (simp add: upload_test_sets_def)
  then show "\<exists>m. upload_test_sets d request st = (abort 400 m, st)" by blast
next
  show "status_code (abort code m) = code" by (simp add: abort_def)
qed

theorem upload_test_sets_gates_witness:
  "upload_test_sets example_deps
       ((example_signed ''Client'' ''PATCH'' ''/test_sets'')
          \<lparr>req_mimetype := ''application/json''\<rparr>) empty_state
     = (abort 415 ''Invalid request's content type'', empty_state)
   \<and> (\<exists>m. upload_test_sets example_deps
       ((example_signed ''Client'' ''PATCH'' ''/test_sets'')
          \<lparr>req_mimetype := ''multipart/form-data'',
            req_headers := [(''Digest'', ''sha-256=AAAA''), (''Authorization'', ''Client'')],
            req_files := [(''packages'',
               Some [\<lparr>tm_name = ''pkg'', tm_isdir = True, tm_data = []\<rparr>,
                     \<lparr>tm_name = ''pkg/__init__.py'', tm_isdir = False, tm_data = ''#''\<rparr>])]\<rparr>)
       empty_state = (abort 400 m, empty_state))
   \<and> status_code (abort 415 []) = 415 \<and> status_code (abort 400 []) = 400"
  using upload_test_sets_gates
    [of "(example_signed ''Client'' ''PATCH'' ''/test_sets'')
          \<lparr>req_mimetype := ''application/json''\<rparr>" example_deps empty_state 415 "[]"]
    upload_test_sets_gates
    [of "(example_signed ''Client'' ''PATCH'' ''/test_sets'')
          \<lparr>req_mimetype := ''multipart/form-data'',
            req_headers := [(''Digest'', ''sha-256=AAAA''), (''Authorization'', ''Client'')],
            req_files := [(''packages'',
               Some [\<lparr>tm_name = ''pkg'', tm_isdir = True, tm_data = []\<rparr>,
                     \<lparr>tm_name = ''pkg/__init__.py'', tm_isdir = False, tm_data = ''#''\<rparr>])]\<rparr>"
        example_deps empty_state 400 "[]"]
  by (simp add: example_signed_def example_deps_def startswith_def)















subsection \<open>The session table and the registry\<close>

lemma py_getitem_Key_Inr:
  "py_getitem j (Key k) = Inr v \<Longrightarrow> \<exists>kv. j = JObj kv \<and> map_of kv k = Some v"
  by (cases j) (auto simp: py_getitem_def split: option.splits)

lemma add_environment_session:
  "\<exists>rows. session (snd (add_environment d now request st)) = session st @ rows"
proof (cases "\<exists>j ip port to_insert tbl rowid.
    req_json request = Some j \<and> build_to_insert j = Inr (ip, port, to_insert)
    \<and> insert_session now to_insert (session st) = Inr (tbl, rowid)")
  case True
  then obtain j ip port to_insert tbl rowid where
    h: "req_json request = Some j" "build_to_insert j = Inr (ip, port, to_insert)"
      "insert_session now to_insert (session st) = Inr (tbl, rowid)" by blast
  from insert_session_Inr [OF h(3)] obtain row where row: "tbl = session st @ [row]" by blast
  have "session (snd (add_environment d now request st)) = session st
      \<or> session (snd (add_environment d now request st)) = tbl"
    using h by (auto simp: add_environment_def request_json_def Let_def
        split: option.splits sum.splits bool.splits)
  with row show ?thesis by auto
next
  case False
  then have "session (snd (add_environment d now request st)) = session st"
    by (auto simp: add_environment_def request_json_def Let_def
        split: option.splits sum.splits bool.splits prod.splits)
  then show ?thesis by simp
qed

lemma serve_session:
  "\<exists>rows. session (snd (serve d now rt request st)) = session st @ rows"
proof (cases rt)
  case AddEnvironment
  then show ?thesis using add_environment_session [of d now request st] by (simp add: serve_def)
next
  case (RemoveEnvironment ip port)
  then show ?thesis
    by (auto simp: serve_def remove_environment_def Let_def split: option.splits)
next
  case UploadTestSets
  then show ?thesis
    by (auto simp: serve_def upload_test_sets_def
        split: option.splits sum.splits prod.splits if_splits)
next
  case (DeletePackage package)
  then show ?thesis
    by (auto simp: serve_def delete_package_def Let_def split: option.splits sum.splits)
qed (simp_all add: serve_def)
text \<open>
  Claim C6. A \<^verbatim>\<open>POST /environments\<close> that is answered with 204, whether or not its ip
  and port are already registered, appends one row to the session table, with a row id
  that no earlier row has and the server time as its start, and leaves the earlier rows
  as they are; the registry then holds under that ip and port the id and the start of the
  new row, so that an entry registered before, whose session id is the id of an earlier
  row, is replaced by one with another session id. No route ever does more to the
  session table than to append rows.
\<close>

theorem reregistration_appends_session:
  assumes "add_environment d now request st = (r, st')" and "status_code r = 204"
  shows "(\<exists>kv ip port row.
      req_json request = Some (JObj kv)
      \<and> map_of kv ''ip'' = Some ip \<and> map_of kv ''port'' = Some port
      \<and> session st' = session st @ [row]
      \<and> id_session row = max_rowid (session st) + 1
      \<and> id_session row \<notin> id_session ` set (session st)
      \<and> row_session_start row = now
      \<and> lookup_env (environments st') ip port
          = Some \<lparr>session_id = id_session row,
                   session_start = (case strftime_iso now of None \<Rightarrow> JNull
                                    | Some s \<Rightarrow> JStr s)\<rparr>
      \<and> (\<forall>e. lookup_env (environments st) ip port = Some e
               \<and> session_id e \<in> id_session ` set (session st)
             \<longrightarrow> session_id e \<noteq> id_session row))
    \<and> (\<exists>rows. session (snd (serve d2 t rt rq st0)) = session st0 @ rows)"
proof -
  from add_environment_204 [OF assms] obtain j ip port to_insert tbl rowid where
    h: "req_json request = Some j" "build_to_insert j = Inr (ip, port, to_insert)"
      "insert_session now to_insert (session st) = Inr (tbl, rowid)"
      "st' = st\<lparr>session := tbl,
          environments := dict_set (environments st) ip
            (dict_set (case dict_get (environments st) ip of None \<Rightarrow> [] | Some ports \<Rightarrow> ports)
               port \<lparr>session_id = rowid,
                      session_start = (case strftime_iso now of None \<Rightarrow> JNull
                                       | Some s \<Rightarrow> JStr s)\<rparr>)\<rparr>"
    by blast
  from build_to_insert_Inr [OF h(2)] have
    g: "py_getitem j (Key ''ip'') = Inr ip" "py_getitem j (Key ''port'') = Inr port" by auto
  from py_getitem_Key_Inr [OF g(1)] obtain kv where
    kv: "j = JObj kv" "map_of kv ''ip'' = Some ip" by blast
  from py_getitem_Key_Inr [OF g(2)] kv(1) have kp: "map_of kv ''port'' = Some port" by auto
  from insert_session_Inr [OF h(3)] obtain row where
    row: "tbl = session st @ [row]" "id_session row = rowid" "row_session_start row = now"
      "rowid = max_rowid (session st) + 1" "rowid \<notin> id_session ` set (session st)" by blast
  have l: "lookup_env (environments st') ip port
          = Some \<lparr>session_id = id_session row,
                   session_start = (case strftime_iso now of None \<Rightarrow> JNull
                                    | Some s \<Rightarrow> JStr s)\<rparr>"
    using h(4) row(2) by (simp add: lookup_env_register py_eq_refl)
  have s: "session st' = session st @ [row]" using h(4) row(1) by simp
  have first: "\<exists>kv ip port row.
      req_json request = Some (JObj kv)
      \<and> map_of kv ''ip'' = Some ip \<and> map_of kv ''port'' = Some port
      \<and> session st' = session st @ [row]
      \<and> id_session row = max_rowid (session st) + 1
      \<and> id_session row \<notin> id_session ` set (session st)
      \<and> row_session_start row = now
      \<and> lookup_env (environments st') ip port
          = Some \<lparr>session_id = id_session row,
                   session_start = (case strftime_iso now of None \<Rightarrow> JNull
                                    | Some s \<Rightarrow> JStr s)\<rparr>
      \<and> (\<forall>e. lookup_env (environments st) ip port = Some e
               \<and> session_id e \<in> id_session ` set (session st)
             \<longrightarrow> session_id e \<noteq> id_session row)"
    using h(1) kv kp s row l
    by (intro exI [of _ kv] exI [of _ ip] exI [of _ port] exI [of _ row]) auto
  show ?thesis using first serve_session [of d2 t rt rq st0] by blast
qed

theorem reregistration_appends_session_witness:
  "status_code (fst (add_environment example_deps 5
       (example_registration (JStr ''5000'') example_platform_info)
       (snd (add_environment example_deps 0
          (example_registration (JStr ''5000'') example_platform_info) empty_state)))) = 204
   \<and> (\<exists>row. session (snd (add_environment example_deps 5
            (example_registration (JStr ''5000'') example_platform_info)
            (snd (add_environment example_deps 0
               (example_registration (JStr ''5000'') example_platform_info) empty_state))))
        = session (snd (add_environment example_deps 0
               (example_registration (JStr ''5000'') example_platform_info) empty_state))
          @ [row]
      \<and> id_session row = 2 \<and> row_session_start row = 5
      \<and> lookup_env (environments (snd (add_environment example_deps 5
            (example_registration (JStr ''5000'') example_platform_info)
            (snd (add_environment example_deps 0
               (example_registration (JStr ''5000'') example_platform_info) empty_state)))))
          (JStr ''10.0.0.1'') (JStr ''5000'')
          = Some \<lparr>session_id = 2, session_start = JStr ''1970-01-01T00:00:05Z''\<rparr>)
   \<and> lookup_env (environments (snd (add_environment example_deps 0
          (example_registration (JStr ''5000'') example_platform_info) empty_state)))
        (JStr ''10.0.0.1'') (JStr ''5000'')
        = Some \<lparr>session_id = 1, session_start = JStr ''1970-01-01T00:00:00Z''\<rparr>"
proof -
  let ?R = "example_registration (JStr ''5000'') example_platform_info"
  let ?S1 = "snd (add_environment example_deps 0 ?R empty_state)"
  let ?X = "add_environment example_deps 5 ?R ?S1"
  have a: "?X = (fst ?X, snd ?X)" by simp
  have b: "status_code (fst ?X) = 204" by code_simp
  have m: "max_rowid (session ?S1) = 1" by code_simp
  have t: "strftime_iso 5 = Some ''1970-01-01T00:00:05Z''" by code_simp
  have l1: "lookup_env (environments ?S1) (JStr ''10.0.0.1'') (JStr ''5000'')
        = Some \<lparr>session_id = 1, session_start = JStr ''1970-01-01T00:00:00Z''\<rparr>"
    by code_simp
  have j: "req_json ?R = Some (JObj [(''ip'', JStr ''10.0.0.1''), (''port'', JStr ''5000''),
                    (''platform_info'', example_platform_info)])"
    by (simp add: example_registration_def)
  from reregistration_appends_session [OF a b, of example_deps 0 IsUp ?R empty_state]
  obtain kv ip port row where
    h: "req_json ?R = Some (JObj kv)" "map_of kv ''ip'' = Some ip" "map_of kv ''port'' = Some port"
      "session (snd ?X) = session ?S1 @ [row]"
      "id_session row = max_rowid (session ?S1) + 1" "row_session_start row = 5"
      "lookup_env (environments (snd ?X)) ip port
          = Some \<lparr>session_id = id_session row,
                   session_start = (case strftime_iso 5 of None \<Rightarrow> JNull | Some s \<Rightarrow> JStr s)\<rparr>"
    by blast
  from h(1) h(2) h(3) j have "ip = JStr ''10.0.0.1''" "port = JStr ''5000''" by auto
  with h m t have "session (snd ?X) = session ?S1 @ [row]
      \<and> id_session row = 2 \<and> row_session_start row = 5
      \<and> lookup_env (environments (snd ?X)) (JStr ''10.0.0.1'') (JStr ''5000'')
          = Some \<lparr>session_id = 2, session_start = JStr ''1970-01-01T00:00:05Z''\<rparr>"
    by simp
  with b l1 show ?thesis by blast
qed








end
